theory Spec2Isabelle
  imports Complex_Main
begin

section \<open>JavaScript values and the serverless request/response objects\<close>

text \<open>
  The four handlers under \<^verbatim>\<open>api/\<close> are Vercel serverless functions: each receives
  \<^verbatim>\<open>req\<close> (method, parsed query, parsed body) and mutates \<^verbatim>\<open>res\<close>. Strings are
  byte strings (UTF-8). A JSON value is a \<open>jv\<close>; \<open>JUndefined\<close> stands for a property
  that is absent.
\<close>

datatype jv =
    JUndefined
  | JNull
  | JBool bool
  | JNum real
  | JStr string
  | JArr "jv list"
  | JObj "(string \<times> jv) list"

text \<open>JavaScript truthiness, as used by \<^verbatim>\<open>!text\<close> and \<^verbatim>\<open>a || b\<close>.\<close>

fun truthy :: "jv \<Rightarrow> bool" where
  "truthy JUndefined = False"
| "truthy JNull = False"
| "truthy (JBool b) = b"
| "truthy (JNum x) = (x \<noteq> 0)"
| "truthy (JStr s) = (s \<noteq> [])"
| "truthy (JArr xs) = True"
| "truthy (JObj kvs) = True"

definition js_or :: "jv \<Rightarrow> jv \<Rightarrow> jv" where
  "js_or a b = (if truthy a then a else b)"

text \<open>
  Property read \<^verbatim>\<open>v.k\<close> for the keys the handlers destructure (\<^verbatim>\<open>text\<close>,
  \<^verbatim>\<open>voice\<close>): an object yields the stored value, every other (truthy) value has no
  such property.
\<close>

fun get_prop :: "jv \<Rightarrow> string \<Rightarrow> jv" where
  "get_prop (JObj kvs) k = (case map_of kvs k of None \<Rightarrow> JUndefined | Some v \<Rightarrow> v)"
| "get_prop v k = JUndefined"

text \<open>A destructuring default \<^verbatim>\<open>{ k = d }\<close> applies only when the value is undefined.\<close>

definition default_to :: "jv \<Rightarrow> jv \<Rightarrow> jv" where
  "default_to v d = (if v = JUndefined then d else v)"

text \<open>
  A parsed query parameter is a string, or an array of strings when the parameter is
  repeated; an absent parameter is \<open>None\<close> (undefined).
\<close>

datatype qval = QStr string | QArr "string list"

fun join_comma :: "string list \<Rightarrow> string" where
  "join_comma [] = []"
| "join_comma [x] = x"
| "join_comma (x # y # ys) = x @ '','' @ join_comma (y # ys)"

fun qstring :: "qval \<Rightarrow> string" where
  "qstring (QStr s) = s"
| "qstring (QArr xs) = join_comma xs"

fun q_truthy :: "qval option \<Rightarrow> bool" where
  "q_truthy None = False"
| "q_truthy (Some (QStr s)) = (s \<noteq> [])"
| "q_truthy (Some (QArr xs)) = True"

text \<open>\<^verbatim>\<open>String(q || d)\<close> for a query parameter \<open>q\<close> and a string literal \<open>d\<close>.\<close>

definition q_or :: "qval option \<Rightarrow> string \<Rightarrow> string" where
  "q_or q d = (case q of None \<Rightarrow> d | Some v \<Rightarrow> if q_truthy q then qstring v else d)"

text \<open>A destructured query parameter with a default: \<^verbatim>\<open>{ k = d } = req.query\<close>.\<close>

definition q_default :: "qval option \<Rightarrow> string \<Rightarrow> string" where
  "q_default q d = (case q of None \<Rightarrow> d | Some v \<Rightarrow> qstring v)"

text \<open>An environment variable inside a template literal: undefined prints as such.\<close>

definition env_tmpl :: "string option \<Rightarrow> string" where
  "env_tmpl v = (case v of None \<Rightarrow> ''undefined'' | Some s \<Rightarrow> s)"

text \<open>\<^verbatim>\<open>process.env.A || process.env.B\<close>: the empty string is falsy.\<close>

definition env_or :: "string option \<Rightarrow> string option \<Rightarrow> string option" where
  "env_or a b = (case a of None \<Rightarrow> b | Some s \<Rightarrow> if s \<noteq> [] then Some s else b)"

subsection \<open>encodeURIComponent\<close>

text \<open>
  Every byte other than an ASCII letter, a digit or one of \<^verbatim>\<open>- _ . ! ~ * ' ( )\<close> is
  written as \<^verbatim>\<open>%XX\<close> with upper-case hexadecimal digits.
\<close>

definition uri_unreserved :: "char \<Rightarrow> bool" where
  "uri_unreserved c =
     (c \<in> set ''ABCDEFGHIJKLMNOPQRSTUVWXYZabcdefghijklmnopqrstuvwxyz0123456789-_.!~*()''
      \<or> c = CHR 0x27)"

definition hex_digit :: "nat \<Rightarrow> char" where
  "hex_digit n = ''0123456789ABCDEF'' ! (n mod 16)"

definition encode_byte :: "char \<Rightarrow> string" where
  "encode_byte c =
     (if uri_unreserved c then [c]
      else [CHR ''%'', hex_digit (of_char c div 16), hex_digit (of_char c mod 16)])"

definition encodeURIComponent :: "string \<Rightarrow> string" where
  "encodeURIComponent s = concat (map encode_byte s)"

subsection \<open>The response object and the upstream world\<close>

datatype payload = NoBody | JsonBody jv | TextBody string | BinaryBody string

record response =
  r_status :: nat
  r_headers :: "(string \<times> string) list"
  r_body :: payload

text \<open>A fresh \<^verbatim>\<open>res\<close>: status 200, no header set by the handler, nothing sent.\<close>

definition res0 :: response where
  "res0 = \<lparr>r_status = 200, r_headers = [], r_body = NoBody\<rparr>"

definition setHeader :: "string \<Rightarrow> string \<Rightarrow> response \<Rightarrow> response" where
  "setHeader k v res =
     res\<lparr>r_headers := filter (\<lambda>kv. fst kv \<noteq> k) (r_headers res) @ [(k, v)]\<rparr>"

definition set_status :: "nat \<Rightarrow> response \<Rightarrow> response" where
  "set_status c res = res\<lparr>r_status := c\<rparr>"

definition send_json :: "jv \<Rightarrow> response \<Rightarrow> response" where
  "send_json v res = res\<lparr>r_body := JsonBody v\<rparr>"

definition send_text :: "string \<Rightarrow> response \<Rightarrow> response" where
  "send_text t res = res\<lparr>r_body := TextBody t\<rparr>"

definition send_buffer :: "string \<Rightarrow> response \<Rightarrow> response" where
  "send_buffer b res = res\<lparr>r_body := BinaryBody b\<rparr>"

text \<open>The payload \<^verbatim>\<open>{ error: msg }\<close>.\<close>

definition error_obj :: "string \<Rightarrow> jv" where
  "error_obj msg = JObj [(''error'', JStr msg)]"

record request =
  req_method :: string
  req_query :: "string \<Rightarrow> qval option"
  req_body :: jv

text \<open>
  An outgoing \<^verbatim>\<open>fetch\<close> call and what comes back. \<open>up_body\<close> holds the raw bytes
  of the body, or \<open>Inl msg\<close> when reading the body stream rejects. The world gives the process environment, the
  answer to each \<^verbatim>\<open>fetch\<close> call (\<open>Inl msg\<close>: \<^verbatim>\<open>fetch\<close> throws an error with that
  message, whether the runtime refuses the request or the upstream cannot be reached) and
  the JSON parser (\<open>Inl msg\<close>: a SyntaxError).
\<close>

record up_request =
  u_url :: string
  u_method :: string
  u_headers :: "(string \<times> string) list"
  u_body :: "jv option"

record up_response =
  up_status :: nat
  up_body :: "string + string"

record world =
  penv :: "string \<Rightarrow> string option"
  fetch :: "up_request \<Rightarrow> string + up_response"
  json_parse :: "string \<Rightarrow> string + jv"

definition http_get :: "string \<Rightarrow> up_request" where
  "http_get url = \<lparr>u_url = url, u_method = ''GET'', u_headers = [], u_body = None\<rparr>"

text \<open>\<^verbatim>\<open>response.ok\<close>.\<close>

definition up_ok :: "up_response \<Rightarrow> bool" where
  "up_ok r = (200 \<le> up_status r \<and> up_status r \<le> 299)"

subsection \<open>Reading the body of an upstream response\<close>

text \<open>
  \<^verbatim>\<open>response.text()\<close> and \<^verbatim>\<open>response.json()\<close> decode the body's bytes as UTF-8:
  a leading byte-order mark is dropped, and every byte sequence that is not well-formed
  UTF-8 is replaced by U+FFFD. A JavaScript string is represented here by its UTF-8
  bytes, so decoding maps bytes to bytes: a well-formed sequence is kept, a malformed one
  becomes the three bytes of U+FFFD. \<open>utf8_scan\<close> is the decoder's state machine: the
  number of continuation bytes still needed, the bounds for the next byte, the bytes of
  the sequence read so far, and the input left. A byte that does not continue the
  sequence ends it with U+FFFD and is read again as the start of a new one.
  \<^verbatim>\<open>response.arrayBuffer()\<close> returns the bytes as they are.
\<close>

definition replacement :: string where
  "replacement = [CHR 0xEF, CHR 0xBF, CHR 0xBD]"

fun utf8_scan :: "nat \<Rightarrow> nat \<Rightarrow> nat \<Rightarrow> string \<Rightarrow> string \<Rightarrow> string" where
  "utf8_scan needed lo hi pend [] = (if needed = 0 then [] else replacement)"
| "utf8_scan needed lo hi pend (c # cs) =
     (if needed = 0 then
        (if (of_char c :: nat) \<le> 0x7F then c # utf8_scan 0 0x80 0xBF [] cs
         else if 0xC2 \<le> (of_char c :: nat) \<and> (of_char c :: nat) \<le> 0xDF
           then utf8_scan 1 0x80 0xBF [c] cs
         else if 0xE0 \<le> (of_char c :: nat) \<and> (of_char c :: nat) \<le> 0xEF
           then utf8_scan 2 (if (of_char c :: nat) = 0xE0 then 0xA0 else 0x80)
                  (if (of_char c :: nat) = 0xED then 0x9F else 0xBF) [c] cs
         else if 0xF0 \<le> (of_char c :: nat) \<and> (of_char c :: nat) \<le> 0xF4
           then utf8_scan 3 (if (of_char c :: nat) = 0xF0 then 0x90 else 0x80)
                  (if (of_char c :: nat) = 0xF4 then 0x8F else 0xBF) [c] cs
         else replacement @ utf8_scan 0 0x80 0xBF [] cs)
      else if (of_char c :: nat) < lo \<or> hi < (of_char c :: nat)
        then replacement @ utf8_scan 0 0x80 0xBF [] (c # cs)
      else if needed = 1 then pend @ [c] @ utf8_scan 0 0x80 0xBF [] cs
      else utf8_scan (needed - 1) 0x80 0xBF (pend @ [c]) cs)"

definition byte_order_mark :: string where
  "byte_order_mark = [CHR 0xEF, CHR 0xBB, CHR 0xBF]"

definition strip_bom :: "string \<Rightarrow> string" where
  "strip_bom bs = (if take 3 bs = byte_order_mark then drop 3 bs else bs)"

definition utf8_decode :: "string \<Rightarrow> string" where
  "utf8_decode bs = utf8_scan 0 0x80 0xBF [] (strip_bom bs)"

text \<open>
  \<^verbatim>\<open>await response.text()\<close>, \<^verbatim>\<open>await response.json()\<close> and
  \<^verbatim>\<open>await response.arrayBuffer()\<close>; each rejects when reading the body does.
\<close>

definition up_text :: "up_response \<Rightarrow> string + string" where
  "up_text r = (case up_body r of Inl msg \<Rightarrow> Inl msg | Inr raw \<Rightarrow> Inr (utf8_decode raw))"

definition up_json :: "world \<Rightarrow> up_response \<Rightarrow> string + jv" where
  "up_json w r = (case up_text r of Inl msg \<Rightarrow> Inl msg | Inr t \<Rightarrow> json_parse w t)"

definition up_arrayBuffer :: "up_response \<Rightarrow> string + string" where
  "up_arrayBuffer r = up_body r"

section \<open>The proxy handlers\<close>

text \<open>
  Each handler returns the response it sends and the list of \<^verbatim>\<open>fetch\<close> calls it made.
  A throw inside \<^verbatim>\<open>try\<close> is the \<open>Inl\<close> branch, which runs the \<^verbatim>\<open>catch\<close> block.
\<close>

subsection \<open>api/newsapi.js\<close>

definition newsapi_url :: "world \<Rightarrow> request \<Rightarrow> string" where
  "newsapi_url w req =
     ''https://newsapi.org/v2/everything?q=''
       @ encodeURIComponent (q_or (req_query req ''q'') ''artificial intelligence'')
       @ ''&sortBy=publishedAt&pageSize='' @ q_default (req_query req ''pageSize'') ''10''
       @ ''&apiKey='' @ env_tmpl (penv w ''NEWSAPI_KEY'')"

definition newsapi_catch :: "string \<Rightarrow> response" where
  "newsapi_catch msg = send_json (error_obj msg) (set_status 500 res0)"

definition newsapi_handler :: "world \<Rightarrow> request \<Rightarrow> response \<times> up_request list" where
  "newsapi_handler w req =
     (let rq = http_get (newsapi_url w req) in
      case fetch w rq of
        Inl msg \<Rightarrow> (newsapi_catch msg, [rq])
      | Inr resp \<Rightarrow>
          (case up_json w resp of
             Inl msg \<Rightarrow> (newsapi_catch msg, [rq])
           | Inr data \<Rightarrow>
               (send_json data
                  (set_status (up_status resp)
                     (setHeader ''Access-Control-Allow-Origin'' ''*'' res0)), [rq])))"

subsection \<open>The newsdata.io handler\<close>

definition newsdata_url :: "world \<Rightarrow> request \<Rightarrow> string" where
  "newsdata_url w req =
     ''https://newsdata.io/api/1/news?apikey='' @ env_tmpl (penv w ''NEWSDATA_KEY'')
       @ ''&q='' @ encodeURIComponent (q_or (req_query req ''q'') ''artificial intelligence'')
       @ ''&language='' @ q_default (req_query req ''language'') ''en''"

definition newsdata_catch :: "string \<Rightarrow> response" where
  "newsdata_catch msg = send_json (error_obj msg) (set_status 500 res0)"

definition newsdata_handler :: "world \<Rightarrow> request \<Rightarrow> response \<times> up_request list" where
  "newsdata_handler w req =
     (let rq = http_get (newsdata_url w req) in
      case fetch w rq of
        Inl msg \<Rightarrow> (newsdata_catch msg, [rq])
      | Inr resp \<Rightarrow>
          (case up_json w resp of
             Inl msg \<Rightarrow> (newsdata_catch msg, [rq])
           | Inr data \<Rightarrow>
               (send_json data
                  (set_status (up_status resp)
                     (setHeader ''Access-Control-Allow-Origin'' ''*'' res0)), [rq])))"

subsection \<open>api/sheets.js\<close>

text \<open>
  The sheet id is a constant of the handler. The call passes \<^verbatim>\<open>redirect: 'follow'\<close>,
  which is the default of \<^verbatim>\<open>fetch\<close> and leaves the request as \<open>http_get\<close> builds it.
\<close>

definition SHEET_ID :: string where
  "SHEET_ID = ''11a-_IWhljPJHeKV8vdke-JiLmm_KCq-bedSceKB0kZI''"

definition sheets_url :: "request \<Rightarrow> string" where
  "sheets_url req =
     ''https://docs.google.com/spreadsheets/d/'' @ SHEET_ID
       @ ''/export?format=csv&gid='' @ q_or (req_query req ''gid'') ''5770604''"

definition sheets_catch :: "string \<Rightarrow> response" where
  "sheets_catch msg =
     send_json (error_obj msg)
       (set_status 500 (setHeader ''Access-Control-Allow-Origin'' ''*'' res0))"

definition sheets_handler :: "world \<Rightarrow> request \<Rightarrow> response \<times> up_request list" where
  "sheets_handler w req =
     (let rq = http_get (sheets_url req) in
      case fetch w rq of
        Inl msg \<Rightarrow> (sheets_catch msg, [rq])
      | Inr resp \<Rightarrow>
          (case up_text resp of
             Inl msg \<Rightarrow> (sheets_catch msg, [rq])
           | Inr txt \<Rightarrow>
               (send_text txt
                  (set_status 200
                     (setHeader ''Content-Type'' ''text/csv''
                        (setHeader ''Access-Control-Allow-Origin'' ''*'' res0))), [rq])))"

subsection \<open>The text-to-speech handler\<close>

text \<open>
  The three cross-origin headers are set first, on every path. A preflight is answered
  before the body is looked at; a request without a truthy \<^verbatim>\<open>text\<close> is answered before
  the upstream is called.
\<close>

definition tts_cors :: "response \<Rightarrow> response" where
  "tts_cors res =
     setHeader ''Access-Control-Allow-Headers'' ''Content-Type''
       (setHeader ''Access-Control-Allow-Methods'' ''POST, OPTIONS''
          (setHeader ''Access-Control-Allow-Origin'' ''*'' res))"

definition tts_api_key :: "world \<Rightarrow> string option" where
  "tts_api_key w = env_or (penv w ''OPENAI_KEY'') (penv w ''OPENAI_API_KEY'')"

definition tts_text :: "request \<Rightarrow> jv" where
  "tts_text req = get_prop (js_or (req_body req) (JObj [])) ''text''"

definition tts_voice :: "request \<Rightarrow> jv" where
  "tts_voice req =
     default_to (get_prop (js_or (req_body req) (JObj [])) ''voice'') (JStr ''nova'')"

definition tts_request :: "world \<Rightarrow> request \<Rightarrow> up_request" where
  "tts_request w req =
     \<lparr>u_url = ''https://api.openai.com/v1/audio/speech'',
      u_method = ''POST'',
      u_headers =
        [(''Authorization'', ''Bearer '' @ env_tmpl (tts_api_key w)),
         (''Content-Type'', ''application/json'')],
      u_body =
        Some (JObj [(''model'', JStr ''tts-1''), (''input'', tts_text req),
                    (''voice'', tts_voice req)])\<rparr>"

definition tts_catch :: "string \<Rightarrow> response" where
  "tts_catch msg = send_json (error_obj msg) (set_status 500 (tts_cors res0))"

definition tts_handler :: "world \<Rightarrow> request \<Rightarrow> response \<times> up_request list" where
  "tts_handler w req =
     (if req_method req = ''OPTIONS'' then (set_status 200 (tts_cors res0), [])
      else if \<not> truthy (tts_text req) then
        (send_json (error_obj ''No text provided'') (set_status 400 (tts_cors res0)), [])
      else
        (let rq = tts_request w req in
         case fetch w rq of
           Inl msg \<Rightarrow> (tts_catch msg, [rq])
         | Inr resp \<Rightarrow>
             if \<not> up_ok resp then
               (case up_text resp of
                  Inl msg \<Rightarrow> (tts_catch msg, [rq])
                | Inr err \<Rightarrow>
                    (send_json (error_obj err) (set_status (up_status resp) (tts_cors res0)),
                     [rq]))
             else
               (case up_arrayBuffer resp of
                  Inl msg \<Rightarrow> (tts_catch msg, [rq])
                | Inr buffer \<Rightarrow>
                    (send_buffer buffer
                       (setHeader ''Content-Type'' ''audio/mpeg'' (tts_cors res0)), [rq]))))"

section \<open>The Flask backend: background jobs\<close>

text \<open>
  The job registry \<^verbatim>\<open>jobs = {}\<close> maps a job id to a record with the keys
  \<^verbatim>\<open>status\<close>, \<^verbatim>\<open>percent\<close> and \<^verbatim>\<open>message\<close>.
\<close>

record job =
  status :: string
  percent :: int
  message :: string

text \<open>
  The table \<^verbatim>\<open>steps\<close> that \<^verbatim>\<open>do_generation\<close> iterates over is not part of the
  sources; it is a parameter. Each entry has a \<^verbatim>\<open>percent\<close> and a \<^verbatim>\<open>name\<close>, and
  its work either returns or raises (\<open>step_raises\<close>).
\<close>

record step =
  step_percent :: int
  step_name :: string
  step_raises :: bool

text \<open>
  The worker thread of one job runs the body of \<^verbatim>\<open>do_generation\<close> as a sequence of
  atomic writes to the registry, interleaved with the other threads.
\<close>

datatype op = SetPercent int | SetMessage string | DoWork bool | SetStatus string

definition step_ops :: "step \<Rightarrow> op list" where
  "step_ops st = [SetPercent (step_percent st), SetMessage (step_name st), DoWork (step_raises st)]"

definition do_generation :: "step list \<Rightarrow> op list" where
  "do_generation steps = concat (map step_ops steps) @ [SetStatus ''completed'']"

record server =
  jobs :: "string \<Rightarrow> job option"
  threads :: "(string \<times> op list) list"

definition server0 :: server where
  "server0 = \<lparr>jobs = (\<lambda>k. None), threads = []\<rparr>"

record gen_response =
  job_id :: string
  gen_status :: string

text \<open>
  \<^verbatim>\<open>generate()\<close>: the id is the first eight characters of a fresh random UUID
  (the drawn UUID string is an input), the record is stored, the thread is started and
  the response is returned. The handler does not read the request's body.
\<close>

definition generate :: "step list \<Rightarrow> string \<Rightarrow> server \<Rightarrow> gen_response \<times> server" where
  "generate steps uuid s =
     (let jid = take 8 uuid in
      (\<lparr>job_id = jid, gen_status = ''queued''\<rparr>,
       s\<lparr>jobs := (jobs s)(jid \<mapsto> \<lparr>status = ''running'', percent = 0, message = ''Starting...''\<rparr>),
         threads := threads s @ [(jid, do_generation steps)]\<rparr>))"

text \<open>
  One atomic operation of the thread of job \<open>jid\<close>; \<open>None\<close> when it raises (a
  KeyError on \<^verbatim>\<open>jobs[job_id]\<close>, or the step's work), which ends the thread.
\<close>

fun run_op :: "string \<Rightarrow> op \<Rightarrow> (string \<Rightarrow> job option) \<Rightarrow> (string \<Rightarrow> job option) option" where
  "run_op jid (SetPercent p) js =
     (case js jid of None \<Rightarrow> None | Some r \<Rightarrow> Some (js(jid \<mapsto> r\<lparr>percent := p\<rparr>)))"
| "run_op jid (SetMessage m) js =
     (case js jid of None \<Rightarrow> None | Some r \<Rightarrow> Some (js(jid \<mapsto> r\<lparr>message := m\<rparr>)))"
| "run_op jid (DoWork raises) js = (if raises then None else Some js)"
| "run_op jid (SetStatus st) js =
     (case js jid of None \<Rightarrow> None | Some r \<Rightarrow> Some (js(jid \<mapsto> r\<lparr>status := st\<rparr>)))"

text \<open>Thread number \<open>i\<close> is scheduled for one operation.\<close>

definition tick :: "nat \<Rightarrow> server \<Rightarrow> server" where
  "tick i s =
     (if i < length (threads s) then
        (case threads s ! i of
           (jid, []) \<Rightarrow> s
         | (jid, x # rest) \<Rightarrow>
             (case run_op jid x (jobs s) of
                None \<Rightarrow> s\<lparr>threads := (threads s)[i := (jid, [])]\<rparr>
              | Some js \<Rightarrow> s\<lparr>jobs := js, threads := (threads s)[i := (jid, rest)]\<rparr>))
      else s)"

text \<open>
  A run of the server: the requests that start a job (with the UUID drawn) and the
  scheduling decisions, in the order they happen.
\<close>

datatype event = Generate string | Tick nat

fun step_server :: "step list \<Rightarrow> event \<Rightarrow> server \<Rightarrow> server" where
  "step_server steps (Generate uuid) s = snd (generate steps uuid s)"
| "step_server steps (Tick i) s = tick i s"

fun exec :: "step list \<Rightarrow> event list \<Rightarrow> server \<Rightarrow> server" where
  "exec steps [] s = s"
| "exec steps (e # es) s = exec steps es (step_server steps e s)"

datatype status_result = NotFound | Found job

text \<open>
  Modelled from the spec: the handler of \<^verbatim>\<open>GET /status/<job_id>\<close> is not in the
  sources (only the client that polls it is). Section 4.2: it returns the current
  snapshot of the record, signals not-found for an unknown id, and has no side effects.
  The result is paired with the server's state after the call.
\<close>

definition get_status :: "string \<Rightarrow> server \<Rightarrow> status_result \<times> server" where
  "get_status jid s = (case jobs s jid of None \<Rightarrow> (NotFound, s) | Some r \<Rightarrow> (Found r, s))"

text \<open>The job ids handed out along a run.\<close>

fun gen_ids :: "event list \<Rightarrow> string list" where
  "gen_ids [] = []"
| "gen_ids (Generate uuid # es) = take 8 uuid # gen_ids es"
| "gen_ids (e # es) = gen_ids es"

text \<open>
  The order of the status values: \<open>forward a b\<close> when a later read may show \<open>b\<close>
  after an earlier read showed \<open>a\<close>.
\<close>

definition forward :: "string \<Rightarrow> string \<Rightarrow> bool" where
  "forward a b =
     (a = b
      \<or> (a = ''queued'' \<and> (b = ''running'' \<or> b = ''completed'' \<or> b = ''failed''))
      \<or> (a = ''running'' \<and> (b = ''completed'' \<or> b = ''failed'')))"

text \<open>A well-formed step table: percentages in range and in ascending order.\<close>

definition steps_ok :: "step list \<Rightarrow> bool" where
  "steps_ok steps =
     (sorted (map step_percent steps)
      \<and> list_all (\<lambda>st. 0 \<le> step_percent st \<and> step_percent st \<le> 100) steps)"

text \<open>What remains of a thread's program: the status write comes last, the percentages ascend.\<close>

fun status_last :: "op list \<Rightarrow> bool" where
  "status_last [] = True"
| "status_last (SetStatus st # ops) = (st = ''completed'' \<and> ops = [])"
| "status_last (x # ops) = status_last ops"

fun percents_from :: "int \<Rightarrow> op list \<Rightarrow> bool" where
  "percents_from lo [] = True"
| "percents_from lo (SetPercent p # ops) = (lo \<le> p \<and> p \<le> 100 \<and> percents_from p ops)"
| "percents_from lo (x # ops) = percents_from lo ops"

section \<open>The Flask backend: voice chat\<close>

text \<open>
  \<^verbatim>\<open>voice_chat()\<close> calls three external services in sequence. The services, the
  client constructor and the base64 codec are parameters; a call that raises returns
  \<open>Inl\<close> (or \<open>None\<close>). The request's JSON body is a dictionary of strings.
\<close>

datatype py_error =
    KeyError string
  | BinasciiError
  | OpenAIError string

record openai =
  client_error :: "string option"
  b64decode :: "string \<Rightarrow> string option"
  b64encode :: "string \<Rightarrow> string"
  transcriptions_create :: "string \<Rightarrow> string \<Rightarrow> string + string"
  completions_create :: "string \<Rightarrow> string \<Rightarrow> string \<Rightarrow> string + string"
  speech_create :: "string \<Rightarrow> string \<Rightarrow> string \<Rightarrow> string + string"

datatype api_call =
    Transcribe string string
  | Complete string string string
  | Speak string string string

record voice_reply =
  question :: string
  answer :: string
  audio :: string

text \<open>The result, and the external calls made, in order.\<close>

definition voice_chat ::
  "openai \<Rightarrow> (string \<Rightarrow> string option) \<Rightarrow> (py_error + voice_reply) \<times> api_call list" where
  "voice_chat ai data =
     (case client_error ai of
        Some msg \<Rightarrow> (Inl (OpenAIError msg), [])
      | None \<Rightarrow>
     (case data ''audio'' of
        None \<Rightarrow> (Inl (KeyError ''audio''), [])
      | Some a \<Rightarrow>
     (case b64decode ai a of
        None \<Rightarrow> (Inl BinasciiError, [])
      | Some audio_bytes \<Rightarrow>
     (let c1 = Transcribe ''whisper-1'' audio_bytes in
      case transcriptions_create ai ''whisper-1'' audio_bytes of
        Inl msg \<Rightarrow> (Inl (OpenAIError msg), [c1])
      | Inr q \<Rightarrow>
     (case data ''title'' of
        None \<Rightarrow> (Inl (KeyError ''title''), [c1])
      | Some title \<Rightarrow>
     (let c2 = Complete ''gpt-4o-mini'' (''Answer questions about: '' @ title) q in
      case completions_create ai ''gpt-4o-mini'' (''Answer questions about: '' @ title) q of
        Inl msg \<Rightarrow> (Inl (OpenAIError msg), [c1, c2])
      | Inr a \<Rightarrow>
     (let c3 = Speak ''tts-1'' ''nova'' a in
      case speech_create ai ''tts-1'' ''nova'' a of
        Inl msg \<Rightarrow> (Inl (OpenAIError msg), [c1, c2, c3])
      | Inr content \<Rightarrow>
          (Inr \<lparr>question = q, answer = a, audio = b64encode ai content\<rparr>,
           [c1, c2, c3]))))))))"

section \<open>Predicates used to state the properties\<close>

text \<open>
  \<open>occurs_in k s\<close>: the string \<open>k\<close> is a contiguous part of \<open>s\<close>. A response
  leaks \<open>k\<close> when \<open>k\<close> occurs in one of the strings of its body (for a JSON body:
  its keys and string values).
\<close>

fun occurs_in :: "string \<Rightarrow> string \<Rightarrow> bool" where
  "occurs_in k [] = (k = [])"
| "occurs_in k (c # cs) = (take (length k) (c # cs) = k \<or> occurs_in k cs)"

fun jv_strings :: "jv \<Rightarrow> string list" where
  "jv_strings (JStr s) = [s]"
| "jv_strings (JArr xs) = concat (map jv_strings xs)"
| "jv_strings (JObj kvs) = concat (map (\<lambda>kv. fst kv # jv_strings (snd kv)) kvs)"
| "jv_strings v = []"

fun payload_strings :: "payload \<Rightarrow> string list" where
  "payload_strings NoBody = []"
| "payload_strings (JsonBody v) = jv_strings v"
| "payload_strings (TextBody t) = [t]"
| "payload_strings (BinaryBody b) = [b]"

definition leaks :: "string \<Rightarrow> response \<Rightarrow> bool" where
  "leaks key res = list_ex (occurs_in key) (payload_strings (r_body res))"

text \<open>
  Well-formed UTF-8: the byte sequences the decoder keeps. \<open>cont lo hi c\<close>: the byte
  \<open>c\<close> lies within the bounds for a continuation byte.
\<close>

definition cont :: "nat \<Rightarrow> nat \<Rightarrow> char \<Rightarrow> bool" where
  "cont lo hi c = (lo \<le> (of_char c :: nat) \<and> (of_char c :: nat) \<le> hi)"

fun utf8_wf :: "string \<Rightarrow> bool" where
  "utf8_wf [] = True"
| "utf8_wf (c # cs) =
     (if (of_char c :: nat) \<le> 0x7F then utf8_wf cs
      else if 0xC2 \<le> (of_char c :: nat) \<and> (of_char c :: nat) \<le> 0xDF then
        (case cs of c1 # r \<Rightarrow> cont 0x80 0xBF c1 \<and> utf8_wf r | _ \<Rightarrow> False)
      else if 0xE0 \<le> (of_char c :: nat) \<and> (of_char c :: nat) \<le> 0xEF then
        (case cs of c1 # c2 # r \<Rightarrow>
           cont (if (of_char c :: nat) = 0xE0 then 0xA0 else 0x80)
                (if (of_char c :: nat) = 0xED then 0x9F else 0xBF) c1
           \<and> cont 0x80 0xBF c2 \<and> utf8_wf r
         | _ \<Rightarrow> False)
      else if 0xF0 \<le> (of_char c :: nat) \<and> (of_char c :: nat) \<le> 0xF4 then
        (case cs of c1 # c2 # c3 # r \<Rightarrow>
           cont (if (of_char c :: nat) = 0xF0 then 0x90 else 0x80)
                (if (of_char c :: nat) = 0xF4 then 0x8F else 0xBF) c1
           \<and> cont 0x80 0xBF c2 \<and> cont 0x80 0xBF c3 \<and> utf8_wf r
         | _ \<Rightarrow> False)
      else False)"

text \<open>A body that \<^verbatim>\<open>response.text()\<close> returns as it is: well-formed, with no leading mark.\<close>

definition plain_utf8 :: "string \<Rightarrow> bool" where
  "plain_utf8 bs = (utf8_wf bs \<and> take 3 bs \<noteq> byte_order_mark)"

text \<open>The three cross-origin headers the text-to-speech handler sets first.\<close>

definition cors3 :: "(string \<times> string) list" where
  "cors3 = [(''Access-Control-Allow-Origin'', ''*''),
            (''Access-Control-Allow-Methods'', ''POST, OPTIONS''),
            (''Access-Control-Allow-Headers'', ''Content-Type'')]"

text \<open>The pipeline stage an external call belongs to.\<close>

fun stage :: "api_call \<Rightarrow> nat" where
  "stage (Transcribe m a) = 1"
| "stage (Complete m s u) = 2"
| "stage (Speak m v t) = 3"

subsection \<open>Invariants of the job registry\<close>

text \<open>
  Every thread belongs to a job of the registry, no two threads to the same job; a thread
  that still has operations to run has left its job \<^verbatim>\<open>running\<close>, and writes the status
  last; every status stored is \<^verbatim>\<open>running\<close> or \<^verbatim>\<open>completed\<close>.
\<close>

definition inv_status :: "server \<Rightarrow> bool" where
  "inv_status s =
     (distinct (map fst (threads s))
      \<and> fst ` set (threads s) \<subseteq> dom (jobs s)
      \<and> (\<forall>i<length (threads s).
            status_last (snd (threads s ! i))
            \<and> (snd (threads s ! i) \<noteq> [] \<longrightarrow>
                 (\<exists>r. jobs s (fst (threads s ! i)) = Some r \<and> status r = ''running'')))
      \<and> (\<forall>jid r. jobs s jid = Some r \<longrightarrow> status r = ''running'' \<or> status r = ''completed''))"

text \<open>The percentages a thread is still to write ascend from the one stored.\<close>

definition inv_percent :: "server \<Rightarrow> bool" where
  "inv_percent s =
     ((\<forall>i<length (threads s). \<forall>r. jobs s (fst (threads s ! i)) = Some r \<longrightarrow>
          percents_from (percent r) (snd (threads s ! i)))
      \<and> (\<forall>jid r. jobs s jid = Some r \<longrightarrow> 0 \<le> percent r \<and> percent r \<le> 100))"

text \<open>The ids an event, or a run, hands out are new to the registry and pairwise distinct.\<close>

definition fresh_event :: "event \<Rightarrow> server \<Rightarrow> bool" where
  "fresh_event e s = (set (gen_ids [e]) \<inter> dom (jobs s) = {})"

definition fresh_run :: "event list \<Rightarrow> server \<Rightarrow> bool" where
  "fresh_run es s = (distinct (gen_ids es) \<and> set (gen_ids es) \<inter> dom (jobs s) = {})"

section \<open>Concrete inputs\<close>

text \<open>Environments, upstreams and requests for the handlers.\<close>

definition ex_env :: "string \<Rightarrow> string option" where
  "ex_env k =
     (if k = ''NEWSAPI_KEY'' then Some ''news-key-1''
      else if k = ''NEWSDATA_KEY'' then Some ''data-key-2''
      else if k = ''OPENAI_API_KEY'' then Some ''sk-secret-3''
      else None)"

definition ex_req :: request where
  "ex_req = \<lparr>req_method = ''GET'', req_query = (\<lambda>k. None), req_body = JUndefined\<rparr>"

definition speak_req :: request where
  "speak_req =
     \<lparr>req_method = ''POST'', req_query = (\<lambda>k. None),
      req_body = JObj [(''text'', JStr ''Hello'')]\<rparr>"

definition preflight_req :: request where
  "preflight_req = \<lparr>req_method = ''OPTIONS'', req_query = (\<lambda>k. None), req_body = JUndefined\<rparr>"

definition no_body_req :: request where
  "no_body_req = \<lparr>req_method = ''POST'', req_query = (\<lambda>k. None), req_body = JUndefined\<rparr>"

definition no_text_req :: request where
  "no_text_req =
     \<lparr>req_method = ''POST'', req_query = (\<lambda>k. None), req_body = JObj [(''voice'', JStr ''alloy'')]\<rparr>"

definition empty_text_req :: request where
  "empty_text_req =
     \<lparr>req_method = ''POST'', req_query = (\<lambda>k. None), req_body = JObj [(''text'', JStr [])]\<rparr>"

definition down_world :: world where
  "down_world =
     \<lparr>penv = ex_env, fetch = (\<lambda>rq. Inl ''fetch failed''), json_parse = (\<lambda>t. Inl ''Unexpected token'')\<rparr>"

definition gone_world :: world where
  "gone_world =
     \<lparr>penv = ex_env,
      fetch = (\<lambda>rq. Inr \<lparr>up_status = 404, up_body = Inr ''<html>Not Found</html>''\<rparr>),
      json_parse = (\<lambda>t. Inl ''Unexpected token < in JSON at position 0'')\<rparr>"

definition news_world :: world where
  "news_world =
     \<lparr>penv = ex_env,
      fetch = (\<lambda>rq. Inr \<lparr>up_status = 429, up_body = Inr ''{\"status\":\"error\"}''\<rparr>),
      json_parse = (\<lambda>t. Inr (JObj [(''status'', JStr ''error'')]))\<rparr>"

definition echo_world :: world where
  "echo_world =
     \<lparr>penv = ex_env,
      fetch = (\<lambda>rq. Inr \<lparr>up_status = 401,
                 up_body = Inr (''Incorrect API key provided: ''
                   @ (case map_of (u_headers rq) ''Authorization'' of None \<Rightarrow> [] | Some v \<Rightarrow> v))\<rparr>),
      json_parse = (\<lambda>t. Inl ''Unexpected token'')\<rparr>"

text \<open>
  An upstream whose CSV starts with a byte-order mark, followed by a two-byte character.
\<close>

definition bom_world :: world where
  "bom_world =
     \<lparr>penv = ex_env,
      fetch = (\<lambda>rq. Inr \<lparr>up_status = 200,
                 up_body = Inr (byte_order_mark @ [CHR ''a'', CHR '','', CHR 0xC3, CHR 0xA9])\<rparr>),
      json_parse = (\<lambda>t. Inl ''Unexpected token'')\<rparr>"

text \<open>A preflight that carries a text all the same.\<close>

definition preflight_text_req :: request where
  "preflight_text_req =
     \<lparr>req_method = ''OPTIONS'', req_query = (\<lambda>k. None),
      req_body = JObj [(''text'', JStr ''Hello'')]\<rparr>"

text \<open>
  A key with a line feed inside, and a runtime whose \<^verbatim>\<open>fetch\<close> refuses a header value
  that holds one: it throws, before anything is sent, an error whose message quotes the
  value.
\<close>

definition lf_key :: string where
  "lf_key = ''sk-secret'' @ [CHR 0x0A] @ ''3''"

definition strict_world :: world where
  "strict_world =
     \<lparr>penv = (\<lambda>k. if k = ''OPENAI_API_KEY'' then Some lf_key else None),
      fetch = (\<lambda>rq. case find (\<lambda>kv. CHR 0x0A \<in> set (snd kv)) (u_headers rq) of
                 Some kv \<Rightarrow> Inl (''Headers.append: \"'' @ snd kv @ ''\" is an invalid header value.'')
               | None \<Rightarrow> Inr \<lparr>up_status = 200, up_body = Inr ''mp3''\<rparr>),
      json_parse = (\<lambda>t. Inl ''Unexpected token'')\<rparr>"

text \<open>A step table, UUIDs and runs for the job registry; services for the voice chat.\<close>

definition ex_steps :: "step list" where
  "ex_steps = [\<lparr>step_percent = 45, step_name = ''Building slides...'', step_raises = False\<rparr>]"

definition ex_uuid :: string where
  "ex_uuid = ''3f2b8c1e-9d4a-4c6b-8e21-5a7f0b9c2d13''"

definition ex_uuid2 :: string where
  "ex_uuid2 = ''3f2b8c1e-0000-4000-8000-000000000000''"

definition run_half :: "event list" where
  "run_half = [Generate ex_uuid, Tick 0]"

definition run_rest :: "event list" where
  "run_rest = [Tick 0, Tick 1, Tick 0, Tick 0]"

definition run_done :: "event list" where
  "run_done = [Generate ex_uuid, Tick 0, Tick 0, Tick 0, Tick 0]"

definition run_new :: "event list" where
  "run_new = [Generate ex_uuid]"

definition run_work :: "event list" where
  "run_work = [Tick 0, Tick 0, Tick 0, Tick 0, Tick 0]"

definition run_two :: "event list" where
  "run_two = [Generate ex_uuid, Tick 0, Generate ''a1b2c3d4-1111-4222-8333-444455556666'']"

definition ex_ai :: openai where
  "ex_ai =
     \<lparr>client_error = None,
      b64decode = (\<lambda>s. if s = ''AAEC'' then Some ''bytes'' else None),
      b64encode = (\<lambda>b. ''bXAz''),
      transcriptions_create = (\<lambda>m a. Inr ''What is new?''),
      completions_create = (\<lambda>m s u. if u = ''What is new?'' then Inr ''A model.'' else Inl ''rate limit''),
      speech_create = (\<lambda>m v t. Inr ''mp3'')\<rparr>"

definition ex_data :: "string \<Rightarrow> string option" where
  "ex_data k = (if k = ''audio'' then Some ''AAEC'' else if k = ''title'' then Some ''GPT'' else None)"

definition mute_ai :: openai where
  "mute_ai = ex_ai\<lparr>speech_create := (\<lambda>m v t. Inl ''timeout'')\<rparr>"

section \<open>Properties of the proxy handlers\<close>

text \<open>
  The default search query, percent-encoded.
\<close>

lemma encode_default_query:
  "encodeURIComponent ''artificial intelligence'' = ''artificial%20intelligence''"
  by (simp add: encodeURIComponent_def encode_byte_def uri_unreserved_def hex_digit_def)

lemma q_or_absent: "q = None \<or> q = Some (QStr []) \<Longrightarrow> q_or q d = d"
  by (auto simp: q_or_def)

text \<open>
  Claim C10. When the query parameter \<^verbatim>\<open>q\<close> is absent or empty, both news handlers
  build the upstream URL with the fixed query \<^verbatim>\<open>artificial intelligence\<close> (encoded
  as \<^verbatim>\<open>artificial%20intelligence\<close>), with \<^verbatim>\<open>pageSize\<close> defaulting to \<^verbatim>\<open>10\<close>
  and \<^verbatim>\<open>language\<close> to \<^verbatim>\<open>en\<close> when those parameters are absent, and go on to call
  the upstream with exactly that URL: the missing query does not make them fail.
\<close>

theorem default_query_substituted:
  assumes "req_query req ''q'' = None \<or> req_query req ''q'' = Some (QStr [])"
  shows "newsapi_url w req =
           ''https://newsapi.org/v2/everything?q=artificial%20intelligence&sortBy=publishedAt&pageSize=''
             @ (case req_query req ''pageSize'' of None \<Rightarrow> ''10'' | Some v \<Rightarrow> qstring v)
             @ ''&apiKey='' @ env_tmpl (penv w ''NEWSAPI_KEY'')
         \<and> newsdata_url w req =
           ''https://newsdata.io/api/1/news?apikey='' @ env_tmpl (penv w ''NEWSDATA_KEY'')
             @ ''&q=artificial%20intelligence&language=''
             @ (case req_query req ''language'' of None \<Rightarrow> ''en'' | Some v \<Rightarrow> qstring v)
         \<and> snd (newsapi_handler w req) = [http_get (newsapi_url w req)]
         \<and> snd (newsdata_handler w req) = [http_get (newsdata_url w req)]"
proof -
  have q: "q_or (req_query req ''q'') ''artificial intelligence'' = ''artificial intelligence''"
    using assms by (rule q_or_absent)
  have u1: "newsapi_url w req =
           ''https://newsapi.org/v2/everything?q=artificial%20intelligence&sortBy=publishedAt&pageSize=''
             @ (case req_query req ''pageSize'' of None \<Rightarrow> ''10'' | Some v \<Rightarrow> qstring v)
             @ ''&apiKey='' @ env_tmpl (penv w ''NEWSAPI_KEY'')"
    unfolding newsapi_url_def q encode_default_query q_default_def by simp
  have u2: "newsdata_url w req =
           ''https://newsdata.io/api/1/news?apikey='' @ env_tmpl (penv w ''NEWSDATA_KEY'')
             @ ''&q=artificial%20intelligence&language=''
             @ (case req_query req ''language'' of None \<Rightarrow> ''en'' | Some v \<Rightarrow> qstring v)"
    unfolding newsdata_url_def q encode_default_query q_default_def by simp
  have c1: "snd (newsapi_handler w req) = [http_get (newsapi_url w req)]"
    by (simp add: newsapi_handler_def Let_def split: sum.splits)
  have c2: "snd (newsdata_handler w req) = [http_get (newsdata_url w req)]"
    by (simp add: newsdata_handler_def Let_def split: sum.splits)
  from u1 u2 c1 c2 show ?thesis by blast
qed

text \<open>
  A request with no parameter at all: the two URLs in full.
\<close>

theorem default_query_substituted_witness:
  "newsapi_url down_world ex_req =
     ''https://newsapi.org/v2/everything?q=artificial%20intelligence&sortBy=publishedAt&pageSize=10&apiKey=news-key-1''
   \<and> newsdata_url down_world ex_req =
     ''https://newsdata.io/api/1/news?apikey=data-key-2&q=artificial%20intelligence&language=en''
   \<and> snd (newsapi_handler down_world ex_req) = [http_get (newsapi_url down_world ex_req)]
   \<and> snd (newsdata_handler down_world ex_req) = [http_get (newsdata_url down_world ex_req)]"
proof -
  have h: "req_query ex_req ''q'' = None \<or> req_query ex_req ''q'' = Some (QStr [])"
    by (simp add: ex_req_def)
  show ?thesis
    using default_query_substituted [OF h, of down_world]
    by (simp add: ex_req_def down_world_def ex_env_def env_tmpl_def)
qed

text \<open>
  Claim C8. In each of the four proxy handlers, when the call to the upstream throws an
  error with message \<open>msg\<close>, the handler answers with status 500 and the JSON payload
  \<^verbatim>\<open>{ error: msg }\<close>; the exception ends in the \<^verbatim>\<open>catch\<close> block and a response is
  returned. (The text-to-speech handler calls the upstream only for a request that is no
  preflight and carries a text.)
\<close>

theorem upstream_throw_gives_500:
  "(fetch w (http_get (newsapi_url w req)) = Inl msg \<longrightarrow>
      newsapi_handler w req =
        (\<lparr>r_status = 500, r_headers = [], r_body = JsonBody (JObj [(''error'', JStr msg)])\<rparr>,
         [http_get (newsapi_url w req)]))
   \<and> (fetch w (http_get (newsdata_url w req)) = Inl msg \<longrightarrow>
      newsdata_handler w req =
        (\<lparr>r_status = 500, r_headers = [], r_body = JsonBody (JObj [(''error'', JStr msg)])\<rparr>,
         [http_get (newsdata_url w req)]))
   \<and> (fetch w (http_get (sheets_url req)) = Inl msg \<longrightarrow>
      sheets_handler w req =
        (\<lparr>r_status = 500, r_headers = [(''Access-Control-Allow-Origin'', ''*'')],
          r_body = JsonBody (JObj [(''error'', JStr msg)])\<rparr>,
         [http_get (sheets_url req)]))
   \<and> (req_method req \<noteq> ''OPTIONS'' \<and> truthy (tts_text req)
        \<and> fetch w (tts_request w req) = Inl msg \<longrightarrow>
      tts_handler w req =
        (\<lparr>r_status = 500,
          r_headers = [(''Access-Control-Allow-Origin'', ''*''),
                       (''Access-Control-Allow-Methods'', ''POST, OPTIONS''),
                       (''Access-Control-Allow-Headers'', ''Content-Type'')],
          r_body = JsonBody (JObj [(''error'', JStr msg)])\<rparr>,
         [tts_request w req]))"
  by (simp add: newsapi_handler_def newsdata_handler_def sheets_handler_def tts_handler_def
      newsapi_catch_def newsdata_catch_def sheets_catch_def tts_catch_def tts_cors_def
      send_json_def set_status_def setHeader_def res0_def error_obj_def Let_def)

text \<open>
  An upstream that cannot be reached.
\<close>

theorem upstream_throw_gives_500_witness:
  "fetch down_world (http_get (newsapi_url down_world ex_req)) = Inl ''fetch failed''
   \<and> r_status (fst (newsapi_handler down_world ex_req)) = 500
   \<and> r_body (fst (newsapi_handler down_world ex_req)) = JsonBody (JObj [(''error'', JStr ''fetch failed'')])
   \<and> r_status (fst (newsdata_handler down_world ex_req)) = 500
   \<and> r_status (fst (sheets_handler down_world ex_req)) = 500
   \<and> req_method speak_req \<noteq> ''OPTIONS'' \<and> truthy (tts_text speak_req)
   \<and> fetch down_world (tts_request down_world speak_req) = Inl ''fetch failed''
   \<and> r_status (fst (tts_handler down_world speak_req)) = 500
   \<and> r_body (fst (tts_handler down_world speak_req)) = JsonBody (JObj [(''error'', JStr ''fetch failed'')])"
proof -
  have f: "\<And>rq. fetch down_world rq = Inl ''fetch failed''"
    by (simp add: down_world_def)
  have t: "req_method speak_req \<noteq> ''OPTIONS'' \<and> truthy (tts_text speak_req)"
    by (simp add: speak_req_def tts_text_def js_or_def)
  show ?thesis
    using upstream_throw_gives_500 [of down_world ex_req "''fetch failed''"]
      upstream_throw_gives_500 [of down_world speak_req "''fetch failed''"] f t
    by simp
qed

lemma tts_cors_res0: "tts_cors res0 = \<lparr>r_status = 200, r_headers = cors3, r_body = NoBody\<rparr>"
  by (simp add: tts_cors_def setHeader_def res0_def cors3_def)

text \<open>
  A preflight request has no body, hence no text, and is answered with status 200: the
  method is examined before the text.
\<close>

theorem missing_text_preflight_counterexample:
  "\<not> truthy (tts_text preflight_req)
   \<and> tts_handler down_world preflight_req =
       (\<lparr>r_status = 200, r_headers = cors3, r_body = NoBody\<rparr>, [])
   \<and> r_status (fst (tts_handler down_world preflight_req)) \<noteq> 400"
  by (simp add: tts_handler_def tts_text_def js_or_def preflight_req_def tts_cors_res0 set_status_def)

text \<open>
  Claim C7, as amended. A request to the text-to-speech handler whose method is
  \<^verbatim>\<open>OPTIONS\<close> is answered with status 200 and no body, whatever its body, and without
  a call to the upstream. Every other request whose text is missing is answered with
  status 400 and the payload \<^verbatim>\<open>{ error: 'No text provided' }\<close>, also without a call
  to the upstream. The text is missing when there is no body (or a falsy one), when the
  body has no \<^verbatim>\<open>text\<close> property, and when that property is the empty string.
\<close>

theorem missing_text_rejected:
  "(req_method req = ''OPTIONS'' \<longrightarrow>
      tts_handler w req = (\<lparr>r_status = 200, r_headers = cors3, r_body = NoBody\<rparr>, []))
   \<and> (req_method req \<noteq> ''OPTIONS'' \<and> \<not> truthy (tts_text req) \<longrightarrow>
      tts_handler w req =
        (\<lparr>r_status = 400, r_headers = cors3,
          r_body = JsonBody (JObj [(''error'', JStr ''No text provided'')])\<rparr>, []))
   \<and> (\<not> truthy (req_body req) \<or> get_prop (req_body req) ''text'' = JUndefined
        \<or> get_prop (req_body req) ''text'' = JStr [] \<longrightarrow>
      \<not> truthy (tts_text req))"
proof (intro conjI)
  show "req_method req = ''OPTIONS'' \<longrightarrow>
      tts_handler w req = (\<lparr>r_status = 200, r_headers = cors3, r_body = NoBody\<rparr>, [])"
    by (simp add: tts_handler_def tts_cors_res0 set_status_def)
  show "req_method req \<noteq> ''OPTIONS'' \<and> \<not> truthy (tts_text req) \<longrightarrow>
      tts_handler w req =
        (\<lparr>r_status = 400, r_headers = cors3,
          r_body = JsonBody (JObj [(''error'', JStr ''No text provided'')])\<rparr>, [])"
    by (simp add: tts_handler_def tts_cors_res0 set_status_def send_json_def error_obj_def)
  show "\<not> truthy (req_body req) \<or> get_prop (req_body req) ''text'' = JUndefined
        \<or> get_prop (req_body req) ''text'' = JStr [] \<longrightarrow>
      \<not> truthy (tts_text req)"
    by (auto simp: tts_text_def js_or_def)
qed

text \<open>
  A preflight that carries a text, and the three ways for the text to be missing: no
  body, a body without the property, an empty string.
\<close>

theorem missing_text_rejected_witness:
  "req_method preflight_text_req = ''OPTIONS'' \<and> truthy (tts_text preflight_text_req)
   \<and> tts_handler echo_world preflight_text_req =
       (\<lparr>r_status = 200, r_headers = cors3, r_body = NoBody\<rparr>, [])
   \<and> \<not> truthy (tts_text no_body_req) \<and> \<not> truthy (tts_text no_text_req)
   \<and> \<not> truthy (tts_text empty_text_req)
   \<and> tts_handler down_world no_body_req =
       (\<lparr>r_status = 400, r_headers = cors3,
         r_body = JsonBody (JObj [(''error'', JStr ''No text provided'')])\<rparr>, [])
   \<and> tts_handler down_world no_text_req =
       (\<lparr>r_status = 400, r_headers = cors3,
         r_body = JsonBody (JObj [(''error'', JStr ''No text provided'')])\<rparr>, [])
   \<and> tts_handler down_world empty_text_req =
       (\<lparr>r_status = 400, r_headers = cors3,
         r_body = JsonBody (JObj [(''error'', JStr ''No text provided'')])\<rparr>, [])"
proof -
  have o: "req_method preflight_text_req = ''OPTIONS''" "truthy (tts_text preflight_text_req)"
    by (simp_all add: preflight_text_req_def tts_text_def js_or_def)
  have b: "\<not> truthy (req_body no_body_req)"
    "get_prop (req_body no_text_req) ''text'' = JUndefined"
    "get_prop (req_body empty_text_req) ''text'' = JStr []"
    by (simp_all add: no_body_req_def no_text_req_def empty_text_req_def)
  have m: "req_method no_body_req \<noteq> ''OPTIONS''" "req_method no_text_req \<noteq> ''OPTIONS''"
    "req_method empty_text_req \<noteq> ''OPTIONS''"
    by (simp_all add: no_body_req_def no_text_req_def empty_text_req_def)
  show ?thesis
    using missing_text_rejected [of preflight_text_req echo_world]
      missing_text_rejected [of no_body_req down_world]
      missing_text_rejected [of no_text_req down_world]
      missing_text_rejected [of empty_text_req down_world] o b m
    by simp
qed

text \<open>
  The decoder keeps well-formed UTF-8: one lemma for each step of the state machine, then
  induction along the well-formedness check.
\<close>

lemma scan_ascii:
  "(of_char c :: nat) \<le> 0x7F \<Longrightarrow>
   utf8_scan 0 0x80 0xBF [] (c # cs) = c # utf8_scan 0 0x80 0xBF [] cs"
  by simp

lemma scan_lead2:
  "0xC2 \<le> (of_char c :: nat) \<Longrightarrow> (of_char c :: nat) \<le> 0xDF \<Longrightarrow>
   utf8_scan 0 0x80 0xBF [] (c # cs) = utf8_scan (Suc 0) 0x80 0xBF [c] cs"
  by simp

lemma scan_lead3:
  "0xE0 \<le> (of_char c :: nat) \<Longrightarrow> (of_char c :: nat) \<le> 0xEF \<Longrightarrow>
   utf8_scan 0 0x80 0xBF [] (c # cs) =
     utf8_scan (Suc (Suc 0)) (if (of_char c :: nat) = 0xE0 then 0xA0 else 0x80)
       (if (of_char c :: nat) = 0xED then 0x9F else 0xBF) [c] cs"
  by (simp add: numeral_2_eq_2)

lemma scan_lead4:
  "0xF0 \<le> (of_char c :: nat) \<Longrightarrow> (of_char c :: nat) \<le> 0xF4 \<Longrightarrow>
   utf8_scan 0 0x80 0xBF [] (c # cs) =
     utf8_scan (Suc (Suc (Suc 0))) (if (of_char c :: nat) = 0xF0 then 0x90 else 0x80)
       (if (of_char c :: nat) = 0xF4 then 0x8F else 0xBF) [c] cs"
  by (simp add: numeral_3_eq_3)

lemma scan_cont_last:
  "cont lo hi c \<Longrightarrow>
   utf8_scan (Suc 0) lo hi pend (c # cs) = pend @ [c] @ utf8_scan 0 0x80 0xBF [] cs"
  by (simp add: cont_def)

lemma scan_cont_more:
  "cont lo hi c \<Longrightarrow>
   utf8_scan (Suc (Suc n)) lo hi pend (c # cs) = utf8_scan (Suc n) 0x80 0xBF (pend @ [c]) cs"
  by (simp add: cont_def)

lemma utf8_scan_wf: "utf8_wf bs \<Longrightarrow> utf8_scan 0 0x80 0xBF [] bs = bs"
proof (induction bs rule: utf8_wf.induct)
  case 1
  show ?case by simp
next
  case (2 c cs)
  consider (a) "(of_char c :: nat) \<le> 0x7F"
    | (b) "0xC2 \<le> (of_char c :: nat)" "(of_char c :: nat) \<le> 0xDF"
    | (c) "0xE0 \<le> (of_char c :: nat)" "(of_char c :: nat) \<le> 0xEF"
    | (d) "0xF0 \<le> (of_char c :: nat)" "(of_char c :: nat) \<le> 0xF4"
    using "2.prems" by (auto split: if_splits)
  then show ?case
  proof cases
    case a
    with 2 show ?thesis by (simp del: utf8_scan.simps add: scan_ascii)
  next
    case b
    with "2.prems" obtain c1 r where cs: "cs = c1 # r" and k: "cont 0x80 0xBF c1"
      and w: "utf8_wf r"
      by (auto split: list.splits)
    from b have nb: "\<not> (of_char c :: nat) \<le> 0x7F" by simp
    from "2.IH"(2)[OF nb _ cs] b w have "utf8_scan 0 0x80 0xBF [] r = r" by simp
    with b cs k show ?thesis
      by (simp del: utf8_scan.simps add: scan_lead2 scan_cont_last)
  next
    case c
    from c have nb: "\<not> (of_char c :: nat) \<le> 0x7F"
      "\<not> (0xC2 \<le> (of_char c :: nat) \<and> (of_char c :: nat) \<le> 0xDF)" by simp_all
    with c "2.prems" obtain c1 c2 r where cs: "cs = c1 # c2 # r"
      and k: "cont (if (of_char c :: nat) = 0xE0 then 0xA0 else 0x80)
                (if (of_char c :: nat) = 0xED then 0x9F else 0xBF) c1" "cont 0x80 0xBF c2"
      and w: "utf8_wf r"
      by (auto split: list.splits)
    from "2.IH"(3)[OF nb _ cs refl] c w have "utf8_scan 0 0x80 0xBF [] r = r" by simp
    with c cs k show ?thesis
      by (simp del: utf8_scan.simps add: scan_lead3 scan_cont_last scan_cont_more)
  next
    case d
    from d have nb: "\<not> (of_char c :: nat) \<le> 0x7F"
      "\<not> (0xC2 \<le> (of_char c :: nat) \<and> (of_char c :: nat) \<le> 0xDF)"
      "\<not> (0xE0 \<le> (of_char c :: nat) \<and> (of_char c :: nat) \<le> 0xEF)" by simp_all
    with d "2.prems" obtain c1 c2 c3 r where cs: "cs = c1 # c2 # c3 # r"
      and k: "cont (if (of_char c :: nat) = 0xF0 then 0x90 else 0x80)
                (if (of_char c :: nat) = 0xF4 then 0x8F else 0xBF) c1" "cont 0x80 0xBF c2"
        "cont 0x80 0xBF c3"
      and w: "utf8_wf r"
      by (auto split: list.splits)
    from "2.IH"(4)[OF nb _ cs refl refl] d w have "utf8_scan 0 0x80 0xBF [] r = r" by simp
    with d cs k show ?thesis
      by (simp del: utf8_scan.simps add: scan_lead4 scan_cont_last scan_cont_more)
  qed
qed

lemma utf8_decode_plain: "plain_utf8 bs \<Longrightarrow> utf8_decode bs = bs"
  by (simp add: plain_utf8_def utf8_decode_def strip_bom_def utf8_scan_wf)

lemma plain_not_found: "plain_utf8 ''<html>Not Found</html>''"
  by (simp add: plain_utf8_def byte_order_mark_def cont_def)

lemma plain_status_error: "plain_utf8 ''{\"status\":\"error\"}''"
  by (simp add: plain_utf8_def byte_order_mark_def cont_def)

lemma decode_bom_body:
  "utf8_decode (byte_order_mark @ [CHR ''a'', CHR '','', CHR 0xC3, CHR 0xA9])
     = [CHR ''a'', CHR '','', CHR 0xC3, CHR 0xA9]"
  by (simp add: utf8_decode_def strip_bom_def byte_order_mark_def)

text \<open>
  An upstream that answers 404 with an HTML page: the sheet handler answers with status
  200; the news handler cannot parse the page and answers with status 500, without the
  cross-origin header. An upstream whose CSV starts with a byte-order mark: the sheet
  handler sends the body without the mark.
\<close>

theorem relay_counterexample:
  "fetch gone_world (http_get (sheets_url ex_req))
     = Inr \<lparr>up_status = 404, up_body = Inr ''<html>Not Found</html>''\<rparr>
   \<and> fst (sheets_handler gone_world ex_req) =
       \<lparr>r_status = 200,
        r_headers = [(''Access-Control-Allow-Origin'', ''*''), (''Content-Type'', ''text/csv'')],
        r_body = TextBody ''<html>Not Found</html>''\<rparr>
   \<and> r_status (fst (sheets_handler gone_world ex_req)) \<noteq> 404
   \<and> fetch gone_world (http_get (newsapi_url gone_world ex_req))
     = Inr \<lparr>up_status = 404, up_body = Inr ''<html>Not Found</html>''\<rparr>
   \<and> fst (newsapi_handler gone_world ex_req) =
       \<lparr>r_status = 500, r_headers = [],
        r_body = JsonBody (JObj [(''error'', JStr ''Unexpected token < in JSON at position 0'')])\<rparr>
   \<and> fetch bom_world (http_get (sheets_url ex_req))
     = Inr \<lparr>up_status = 200,
            up_body = Inr (byte_order_mark @ [CHR ''a'', CHR '','', CHR 0xC3, CHR 0xA9])\<rparr>
   \<and> r_body (fst (sheets_handler bom_world ex_req)) = TextBody [CHR ''a'', CHR '','', CHR 0xC3, CHR 0xA9]
   \<and> byte_order_mark @ [CHR ''a'', CHR '','', CHR 0xC3, CHR 0xA9] \<noteq> [CHR ''a'', CHR '','', CHR 0xC3, CHR 0xA9]"
proof -
  have d: "utf8_decode ''<html>Not Found</html>'' = ''<html>Not Found</html>''"
    by (rule utf8_decode_plain[OF plain_not_found])
  have a: "fst (sheets_handler gone_world ex_req) =
       \<lparr>r_status = 200,
        r_headers = [(''Access-Control-Allow-Origin'', ''*''), (''Content-Type'', ''text/csv'')],
        r_body = TextBody ''<html>Not Found</html>''\<rparr>"
    by (simp add: gone_world_def sheets_handler_def up_text_def d send_text_def set_status_def
        setHeader_def res0_def Let_def)
  have b: "fst (newsapi_handler gone_world ex_req) =
       \<lparr>r_status = 500, r_headers = [],
        r_body = JsonBody (JObj [(''error'', JStr ''Unexpected token < in JSON at position 0'')])\<rparr>"
    by (simp add: gone_world_def newsapi_handler_def newsapi_catch_def up_json_def up_text_def
        send_json_def set_status_def res0_def error_obj_def Let_def)
  have c: "r_body (fst (sheets_handler bom_world ex_req)) = TextBody [CHR ''a'', CHR '','', CHR 0xC3, CHR 0xA9]"
    by (simp add: bom_world_def sheets_handler_def up_text_def decode_bom_body send_text_def
        set_status_def setHeader_def res0_def Let_def)
  have e: "byte_order_mark @ [CHR ''a'', CHR '','', CHR 0xC3, CHR 0xA9] \<noteq> [CHR ''a'', CHR '','', CHR 0xC3, CHR 0xA9]"
    by (simp add: byte_order_mark_def)
  have f: "fetch gone_world (http_get (sheets_url ex_req))
     = Inr \<lparr>up_status = 404, up_body = Inr ''<html>Not Found</html>''\<rparr>"
    "fetch gone_world (http_get (newsapi_url gone_world ex_req))
     = Inr \<lparr>up_status = 404, up_body = Inr ''<html>Not Found</html>''\<rparr>"
    "fetch bom_world (http_get (sheets_url ex_req))
     = Inr \<lparr>up_status = 200,
            up_body = Inr (byte_order_mark @ [CHR ''a'', CHR '','', CHR 0xC3, CHR 0xA9])\<rparr>"
    by (simp_all add: gone_world_def bom_world_def)
  have g: "r_status (fst (sheets_handler gone_world ex_req)) \<noteq> 404"
    unfolding a by simp
  from a b c e f g show ?thesis by blast
qed

text \<open>
  Claim C3, as amended. When the upstream answers and its body parses as JSON, the two
  news handlers relay the upstream's status code and the parsed body, with the header
  \<^verbatim>\<open>Access-Control-Allow-Origin: *\<close>. When the upstream answers, the sheet handler
  relays its body as \<^verbatim>\<open>response.text()\<close> decodes it, as \<^verbatim>\<open>text/csv\<close> with the same
  header (nothing is said here of its status code). The text-to-speech handler, for a
  request that reaches the upstream, relays a successful answer's bytes as they are,
  as \<^verbatim>\<open>audio/mpeg\<close> with status 200, and an unsuccessful answer's status code with
  its decoded text as \<^verbatim>\<open>{ error: text }\<close>, both with its three cross-origin headers.
  Decoding leaves a body unchanged when it is well-formed UTF-8 and does not start with
  a byte-order mark.
\<close>

theorem relay_when_upstream_answers:
  "(fetch w (http_get (newsapi_url w req)) = Inr resp \<and> up_json w resp = Inr data \<longrightarrow>
      fst (newsapi_handler w req) =
        \<lparr>r_status = up_status resp, r_headers = [(''Access-Control-Allow-Origin'', ''*'')],
         r_body = JsonBody data\<rparr>)
   \<and> (fetch w (http_get (newsdata_url w req)) = Inr resp \<and> up_json w resp = Inr data \<longrightarrow>
      fst (newsdata_handler w req) =
        \<lparr>r_status = up_status resp, r_headers = [(''Access-Control-Allow-Origin'', ''*'')],
         r_body = JsonBody data\<rparr>)
   \<and> (fetch w (http_get (sheets_url req)) = Inr resp \<and> up_body resp = Inr raw \<longrightarrow>
      r_body (fst (sheets_handler w req)) = TextBody (utf8_decode raw)
      \<and> r_headers (fst (sheets_handler w req)) =
          [(''Access-Control-Allow-Origin'', ''*''), (''Content-Type'', ''text/csv'')])
   \<and> (req_method req \<noteq> ''OPTIONS'' \<and> truthy (tts_text req)
        \<and> fetch w (tts_request w req) = Inr resp \<and> up_body resp = Inr raw \<longrightarrow>
      fst (tts_handler w req) =
        (if up_ok resp
         then \<lparr>r_status = 200, r_headers = cors3 @ [(''Content-Type'', ''audio/mpeg'')],
               r_body = BinaryBody raw\<rparr>
         else \<lparr>r_status = up_status resp, r_headers = cors3,
               r_body = JsonBody (JObj [(''error'', JStr (utf8_decode raw))])\<rparr>))
   \<and> (plain_utf8 raw \<longrightarrow> utf8_decode raw = raw)"
proof (intro conjI)
  show "fetch w (http_get (newsapi_url w req)) = Inr resp \<and> up_json w resp = Inr data \<longrightarrow>
      fst (newsapi_handler w req) =
        \<lparr>r_status = up_status resp, r_headers = [(''Access-Control-Allow-Origin'', ''*'')],
         r_body = JsonBody data\<rparr>"
    by (simp add: newsapi_handler_def send_json_def set_status_def setHeader_def res0_def Let_def)
  show "fetch w (http_get (newsdata_url w req)) = Inr resp \<and> up_json w resp = Inr data \<longrightarrow>
      fst (newsdata_handler w req) =
        \<lparr>r_status = up_status resp, r_headers = [(''Access-Control-Allow-Origin'', ''*'')],
         r_body = JsonBody data\<rparr>"
    by (simp add: newsdata_handler_def send_json_def set_status_def setHeader_def res0_def Let_def)
  show "fetch w (http_get (sheets_url req)) = Inr resp \<and> up_body resp = Inr raw \<longrightarrow>
      r_body (fst (sheets_handler w req)) = TextBody (utf8_decode raw)
      \<and> r_headers (fst (sheets_handler w req)) =
          [(''Access-Control-Allow-Origin'', ''*''), (''Content-Type'', ''text/csv'')]"
    by (simp add: sheets_handler_def up_text_def send_text_def set_status_def setHeader_def
        res0_def Let_def)
  show "req_method req \<noteq> ''OPTIONS'' \<and> truthy (tts_text req)
        \<and> fetch w (tts_request w req) = Inr resp \<and> up_body resp = Inr raw \<longrightarrow>
      fst (tts_handler w req) =
        (if up_ok resp
         then \<lparr>r_status = 200, r_headers = cors3 @ [(''Content-Type'', ''audio/mpeg'')],
               r_body = BinaryBody raw\<rparr>
         else \<lparr>r_status = up_status resp, r_headers = cors3,
               r_body = JsonBody (JObj [(''error'', JStr (utf8_decode raw))])\<rparr>)"
    by (simp add: tts_handler_def tts_cors_res0 up_text_def up_arrayBuffer_def send_json_def
        send_buffer_def set_status_def setHeader_def error_obj_def cors3_def Let_def)
  show "plain_utf8 raw \<longrightarrow> utf8_decode raw = raw"
    by (simp add: utf8_decode_plain)
qed

text \<open>
  An upstream that answers 429 with a JSON body.
\<close>

theorem relay_when_upstream_answers_witness:
  "fetch news_world (http_get (newsapi_url news_world ex_req))
     = Inr \<lparr>up_status = 429, up_body = Inr ''{\"status\":\"error\"}''\<rparr>
   \<and> up_json news_world \<lparr>up_status = 429, up_body = Inr ''{\"status\":\"error\"}''\<rparr>
     = Inr (JObj [(''status'', JStr ''error'')])
   \<and> plain_utf8 ''{\"status\":\"error\"}''
   \<and> fst (newsapi_handler news_world ex_req) =
       \<lparr>r_status = 429, r_headers = [(''Access-Control-Allow-Origin'', ''*'')],
        r_body = JsonBody (JObj [(''status'', JStr ''error'')])\<rparr>
   \<and> fst (newsdata_handler news_world ex_req) =
       \<lparr>r_status = 429, r_headers = [(''Access-Control-Allow-Origin'', ''*'')],
        r_body = JsonBody (JObj [(''status'', JStr ''error'')])\<rparr>
   \<and> r_body (fst (sheets_handler news_world ex_req)) = TextBody ''{\"status\":\"error\"}''
   \<and> r_headers (fst (sheets_handler news_world ex_req)) =
       [(''Access-Control-Allow-Origin'', ''*''), (''Content-Type'', ''text/csv'')]
   \<and> fst (tts_handler news_world speak_req) =
       \<lparr>r_status = 429, r_headers = cors3,
        r_body = JsonBody (JObj [(''error'', JStr ''{\"status\":\"error\"}'')])\<rparr>"
proof -
  let ?resp = "\<lparr>up_status = 429, up_body = Inr ''{\"status\":\"error\"}''\<rparr>"
  have f: "\<And>rq. fetch news_world rq = Inr ?resp"
    by (simp add: news_world_def)
  have j: "up_json news_world ?resp = Inr (JObj [(''status'', JStr ''error'')])"
    by (simp add: up_json_def up_text_def news_world_def)
  have t: "req_method speak_req \<noteq> ''OPTIONS'' \<and> truthy (tts_text speak_req)"
    by (simp add: speak_req_def tts_text_def js_or_def)
  have k: "\<not> up_ok ?resp"
    by (simp add: up_ok_def)
  note p = plain_status_error
  show ?thesis
    using relay_when_upstream_answers
        [of news_world ex_req ?resp "JObj [(''status'', JStr ''error'')]" "''{\"status\":\"error\"}''"]
      relay_when_upstream_answers
        [of news_world speak_req ?resp "JObj [(''status'', JStr ''error'')]" "''{\"status\":\"error\"}''"]
      f j t k p
    by simp
qed

text \<open>
  Claim C9 fails on the code. With a key that holds a line feed, \<^verbatim>\<open>fetch\<close> throws
  before anything is sent, its message quotes the header value, and the text-to-speech
  handler sends that message to the client. With an ordinary key and an upstream that
  answers 401 and quotes the \<^verbatim>\<open>Authorization\<close> header in its error text, the handler
  relays the text. In both runs the response body holds the key.
\<close>

theorem key_relayed_to_client:
  "penv strict_world ''OPENAI_API_KEY'' = Some lf_key
   \<and> fst (tts_handler strict_world speak_req) =
       \<lparr>r_status = 500, r_headers = cors3,
        r_body = JsonBody (JObj [(''error'',
          JStr (''Headers.append: \"Bearer '' @ lf_key @ ''\" is an invalid header value.''))])\<rparr>
   \<and> leaks lf_key (fst (tts_handler strict_world speak_req))
   \<and> penv echo_world ''OPENAI_API_KEY'' = Some ''sk-secret-3''
   \<and> fst (tts_handler echo_world speak_req) =
       \<lparr>r_status = 401, r_headers = cors3,
        r_body = JsonBody (JObj [(''error'',
          JStr ''Incorrect API key provided: Bearer sk-secret-3'')])\<rparr>
   \<and> leaks ''sk-secret-3'' (fst (tts_handler echo_world speak_req))"
proof -
  have t: "req_method speak_req \<noteq> ''OPTIONS''" "truthy (tts_text speak_req)"
    by (simp_all add: speak_req_def tts_text_def js_or_def)
  have k1: "tts_api_key strict_world = Some lf_key"
    by (simp add: tts_api_key_def env_or_def strict_world_def lf_key_def)
  have f1: "fetch strict_world (tts_request strict_world speak_req) =
      Inl (''Headers.append: \"Bearer '' @ lf_key @ ''\" is an invalid header value.'')"
    by (simp add: tts_request_def k1 env_tmpl_def) (simp add: strict_world_def lf_key_def)
  have a: "fst (tts_handler strict_world speak_req) =
       \<lparr>r_status = 500, r_headers = cors3,
        r_body = JsonBody (JObj [(''error'',
          JStr (''Headers.append: \"Bearer '' @ lf_key @ ''\" is an invalid header value.''))])\<rparr>"
    using t f1
    by (simp add: tts_handler_def Let_def tts_catch_def tts_cors_res0 send_json_def
        set_status_def error_obj_def)
  have la: "leaks lf_key (fst (tts_handler strict_world speak_req))"
    unfolding a by (simp add: leaks_def lf_key_def)
  have d: "utf8_decode ''Incorrect API key provided: Bearer sk-secret-3''
      = ''Incorrect API key provided: Bearer sk-secret-3''"
    by (rule utf8_decode_plain) (simp add: plain_utf8_def byte_order_mark_def cont_def)
  have k2: "tts_api_key echo_world = Some ''sk-secret-3''"
    by (simp add: tts_api_key_def env_or_def echo_world_def ex_env_def)
  have f2: "fetch echo_world (tts_request echo_world speak_req) =
      Inr \<lparr>up_status = 401, up_body = Inr ''Incorrect API key provided: Bearer sk-secret-3''\<rparr>"
    by (simp add: tts_request_def k2 env_tmpl_def) (simp add: echo_world_def)
  have b: "fst (tts_handler echo_world speak_req) =
       \<lparr>r_status = 401, r_headers = cors3,
        r_body = JsonBody (JObj [(''error'',
          JStr ''Incorrect API key provided: Bearer sk-secret-3'')])\<rparr>"
    using t f2
    by (simp add: tts_handler_def Let_def up_ok_def up_text_def d tts_cors_res0 send_json_def
        set_status_def error_obj_def)
  have lb: "leaks ''sk-secret-3'' (fst (tts_handler echo_world speak_req))"
    unfolding b by (simp add: leaks_def)
  have e: "penv strict_world ''OPENAI_API_KEY'' = Some lf_key"
    "penv echo_world ''OPENAI_API_KEY'' = Some ''sk-secret-3''"
    by (simp_all add: strict_world_def echo_world_def ex_env_def)
  from a la b lb e show ?thesis by blast
qed

section \<open>Properties of the Flask backend\<close>

subsection \<open>Starting a job\<close>

text \<open>
  The record that \<^verbatim>\<open>generate()\<close> stores has the status \<^verbatim>\<open>running\<close>, not
  \<^verbatim>\<open>queued\<close>.
\<close>

theorem created_running_counterexample:
  "jobs (snd (generate ex_steps ex_uuid server0)) ''3f2b8c1e''
     = Some \<lparr>status = ''running'', percent = 0, message = ''Starting...''\<rparr>
   \<and> ''running'' \<noteq> ''queued''"
  by (simp add: generate_def ex_uuid_def server0_def Let_def)

text \<open>
  Claim C2, as amended. \<^verbatim>\<open>generate()\<close> stores, under the first eight characters of the
  UUID, a record with status \<^verbatim>\<open>running\<close>, percent 0 and message \<^verbatim>\<open>Starting...\<close>,
  starts the job's thread, and returns at once the response
  \<^verbatim>\<open>{ job_id, status: 'queued' }\<close>, for every request.
\<close>

theorem generate_creates_running_replies_queued:
  "fst (generate steps uuid s) = \<lparr>job_id = take 8 uuid, gen_status = ''queued''\<rparr>
   \<and> jobs (snd (generate steps uuid s)) (take 8 uuid)
       = Some \<lparr>status = ''running'', percent = 0, message = ''Starting...''\<rparr>
   \<and> dom (jobs (snd (generate steps uuid s))) = insert (take 8 uuid) (dom (jobs s))
   \<and> threads (snd (generate steps uuid s)) = threads s @ [(take 8 uuid, do_generation steps)]"
  by (simp add: generate_def Let_def)

subsection \<open>The voice pipeline\<close>

text \<open>
  Claim C6. \<^verbatim>\<open>voice_chat()\<close> returns the whole triple exactly when every stage
  succeeds: the triple is then made of the outputs of the three stages, called once each
  in the order transcribe, complete, speak, each on the output of the one before. When the
  client cannot be built, a field of the request is missing, the audio does not decode or
  a stage fails, the result is that one error, after the stages before it have been called
  once each and none after it. There is no third outcome: no part of a triple is
  returned, and no stage is called a second time.
\<close>

theorem voice_chat_all_or_nothing:
  "(client_error ai = None \<and> data ''audio'' = Some a \<and> b64decode ai a = Some bytes
      \<and> transcriptions_create ai ''whisper-1'' bytes = Inr q
      \<and> data ''title'' = Some title
      \<and> completions_create ai ''gpt-4o-mini'' (''Answer questions about: '' @ title) q = Inr ans
      \<and> speech_create ai ''tts-1'' ''nova'' ans = Inr content
      \<longrightarrow>
      voice_chat ai data =
        (Inr \<lparr>question = q, answer = ans, audio = b64encode ai content\<rparr>,
         [Transcribe ''whisper-1'' bytes,
          Complete ''gpt-4o-mini'' (''Answer questions about: '' @ title) q,
          Speak ''tts-1'' ''nova'' ans]))
   \<and> (client_error ai = Some msg \<longrightarrow> voice_chat ai data = (Inl (OpenAIError msg), []))
   \<and> (client_error ai = None \<and> data ''audio'' = None \<longrightarrow>
        voice_chat ai data = (Inl (KeyError ''audio''), []))
   \<and> (client_error ai = None \<and> data ''audio'' = Some a \<and> b64decode ai a = None \<longrightarrow>
        voice_chat ai data = (Inl BinasciiError, []))
   \<and> (client_error ai = None \<and> data ''audio'' = Some a \<and> b64decode ai a = Some bytes
        \<and> transcriptions_create ai ''whisper-1'' bytes = Inl msg \<longrightarrow>
        voice_chat ai data = (Inl (OpenAIError msg), [Transcribe ''whisper-1'' bytes]))
   \<and> (client_error ai = None \<and> data ''audio'' = Some a \<and> b64decode ai a = Some bytes
        \<and> transcriptions_create ai ''whisper-1'' bytes = Inr q \<and> data ''title'' = None \<longrightarrow>
        voice_chat ai data = (Inl (KeyError ''title''), [Transcribe ''whisper-1'' bytes]))
   \<and> (client_error ai = None \<and> data ''audio'' = Some a \<and> b64decode ai a = Some bytes
        \<and> transcriptions_create ai ''whisper-1'' bytes = Inr q \<and> data ''title'' = Some title
        \<and> completions_create ai ''gpt-4o-mini'' (''Answer questions about: '' @ title) q = Inl msg
        \<longrightarrow>
        voice_chat ai data =
          (Inl (OpenAIError msg),
           [Transcribe ''whisper-1'' bytes,
            Complete ''gpt-4o-mini'' (''Answer questions about: '' @ title) q]))
   \<and> (client_error ai = None \<and> data ''audio'' = Some a \<and> b64decode ai a = Some bytes
        \<and> transcriptions_create ai ''whisper-1'' bytes = Inr q \<and> data ''title'' = Some title
        \<and> completions_create ai ''gpt-4o-mini'' (''Answer questions about: '' @ title) q = Inr ans
        \<and> speech_create ai ''tts-1'' ''nova'' ans = Inl msg
        \<longrightarrow>
        voice_chat ai data =
          (Inl (OpenAIError msg),
           [Transcribe ''whisper-1'' bytes,
            Complete ''gpt-4o-mini'' (''Answer questions about: '' @ title) q,
            Speak ''tts-1'' ''nova'' ans]))
   \<and> ((\<exists>a bytes q title ans content.
          client_error ai = None \<and> data ''audio'' = Some a \<and> b64decode ai a = Some bytes
          \<and> transcriptions_create ai ''whisper-1'' bytes = Inr q
          \<and> data ''title'' = Some title
          \<and> completions_create ai ''gpt-4o-mini'' (''Answer questions about: '' @ title) q = Inr ans
          \<and> speech_create ai ''tts-1'' ''nova'' ans = Inr content
          \<and> voice_chat ai data =
              (Inr \<lparr>question = q, answer = ans, audio = b64encode ai content\<rparr>,
               [Transcribe ''whisper-1'' bytes,
                Complete ''gpt-4o-mini'' (''Answer questions about: '' @ title) q,
                Speak ''tts-1'' ''nova'' ans]))
        \<or> (\<exists>e. fst (voice_chat ai data) = Inl e
             \<and> map stage (snd (voice_chat ai data))
                 = take (length (snd (voice_chat ai data))) [1, 2, 3]))"
proof (intro conjI)
  show "(\<exists>a bytes q title ans content.
          client_error ai = None \<and> data ''audio'' = Some a \<and> b64decode ai a = Some bytes
          \<and> transcriptions_create ai ''whisper-1'' bytes = Inr q
          \<and> data ''title'' = Some title
          \<and> completions_create ai ''gpt-4o-mini'' (''Answer questions about: '' @ title) q = Inr ans
          \<and> speech_create ai ''tts-1'' ''nova'' ans = Inr content
          \<and> voice_chat ai data =
              (Inr \<lparr>question = q, answer = ans, audio = b64encode ai content\<rparr>,
               [Transcribe ''whisper-1'' bytes,
                Complete ''gpt-4o-mini'' (''Answer questions about: '' @ title) q,
                Speak ''tts-1'' ''nova'' ans]))
        \<or> (\<exists>e. fst (voice_chat ai data) = Inl e
             \<and> map stage (snd (voice_chat ai data))
                 = take (length (snd (voice_chat ai data))) [1, 2, 3])"
    by (auto simp: voice_chat_def Let_def split: option.splits sum.splits)
qed (simp_all add: voice_chat_def Let_def)

text \<open>
  The two outcomes at concrete services: all stages succeed; the last one fails.
\<close>

theorem voice_chat_all_or_nothing_witness:
  "client_error ex_ai = None
   \<and> voice_chat ex_ai ex_data =
       (Inr \<lparr>question = ''What is new?'', answer = ''A model.'', audio = ''bXAz''\<rparr>,
        [Transcribe ''whisper-1'' ''bytes'',
         Complete ''gpt-4o-mini'' ''Answer questions about: GPT'' ''What is new?'',
         Speak ''tts-1'' ''nova'' ''A model.''])
   \<and> speech_create mute_ai ''tts-1'' ''nova'' ''A model.'' = Inl ''timeout''
   \<and> voice_chat mute_ai ex_data =
       (Inl (OpenAIError ''timeout''),
        [Transcribe ''whisper-1'' ''bytes'',
         Complete ''gpt-4o-mini'' ''Answer questions about: GPT'' ''What is new?'',
         Speak ''tts-1'' ''nova'' ''A model.''])"
proof -
  have h: "client_error ex_ai = None" "ex_data ''audio'' = Some ''AAEC''"
    "b64decode ex_ai ''AAEC'' = Some ''bytes''"
    "transcriptions_create ex_ai ''whisper-1'' ''bytes'' = Inr ''What is new?''"
    "ex_data ''title'' = Some ''GPT''"
    "completions_create ex_ai ''gpt-4o-mini'' (''Answer questions about: '' @ ''GPT'') ''What is new?''
       = Inr ''A model.''"
    "speech_create ex_ai ''tts-1'' ''nova'' ''A model.'' = Inr ''mp3''"
    "b64encode ex_ai ''mp3'' = ''bXAz''"
    by (simp_all add: ex_ai_def ex_data_def)
  have m: "client_error mute_ai = None"
    "b64decode mute_ai ''AAEC'' = Some ''bytes''"
    "transcriptions_create mute_ai ''whisper-1'' ''bytes'' = Inr ''What is new?''"
    "completions_create mute_ai ''gpt-4o-mini'' (''Answer questions about: '' @ ''GPT'') ''What is new?''
       = Inr ''A model.''"
    "speech_create mute_ai ''tts-1'' ''nova'' ''A model.'' = Inl ''timeout''"
    by (simp_all add: mute_ai_def ex_ai_def)
  show ?thesis
    using voice_chat_all_or_nothing
        [of ex_ai ex_data "''AAEC''" "''bytes''" "''What is new?''" "''GPT''" "''A model.''"
          "''mp3''" "''timeout''"]
      voice_chat_all_or_nothing
        [of mute_ai ex_data "''AAEC''" "''bytes''" "''What is new?''" "''GPT''" "''A model.''"
          "''mp3''" "''timeout''"]
      h m
    by simp
qed

subsection \<open>The job registry: steps of a thread\<close>

lemma run_op_dom: "run_op j x js0 = Some js \<Longrightarrow> dom js = dom js0"
  by (cases x) (auto split: option.splits if_splits)

lemma run_op_other: "run_op j x js0 = Some js \<Longrightarrow> k \<noteq> j \<Longrightarrow> js k = js0 k"
  by (cases x) (auto split: option.splits if_splits)

lemma run_op_self:
  "run_op j x js0 = Some js \<Longrightarrow> js0 j = Some r \<Longrightarrow>
   js j = Some (case x of SetPercent p \<Rightarrow> r\<lparr>percent := p\<rparr> | SetMessage m \<Rightarrow> r\<lparr>message := m\<rparr>
                | DoWork b \<Rightarrow> r | SetStatus st \<Rightarrow> r\<lparr>status := st\<rparr>)"
  by (cases x) (auto split: option.splits if_splits)

lemma tick_cases:
  obtains (idle) "tick i s = s"
  | (dead) j x rest where "i < length (threads s)" "threads s ! i = (j, x # rest)"
      "tick i s = s\<lparr>threads := (threads s)[i := (j, [])]\<rparr>"
  | (run) j x rest js where "i < length (threads s)" "threads s ! i = (j, x # rest)"
      "run_op j x (jobs s) = Some js"
      "tick i s = s\<lparr>jobs := js, threads := (threads s)[i := (j, rest)]\<rparr>"
proof (cases "i < length (threads s)")
  case False
  then have "tick i s = s" by (simp add: tick_def)
  then show ?thesis by (rule idle)
next
  case True
  obtain j ops where t: "threads s ! i = (j, ops)" by (cases "threads s ! i")
  show ?thesis
  proof (cases ops)
    case Nil
    with True t have "tick i s = s" by (simp add: tick_def)
    then show ?thesis by (rule idle)
  next
    case (Cons x rest)
    show ?thesis
    proof (cases "run_op j x (jobs s)")
      case None
      with True t Cons show ?thesis by (intro dead[of j x rest]) (simp_all add: tick_def)
    next
      case (Some js)
      with True t Cons show ?thesis by (intro run[of j x rest js]) (simp_all add: tick_def)
    qed
  qed
qed

lemma status_last_tail: "status_last (x # rest) \<Longrightarrow> status_last rest"
  by (cases x) auto

lemma fst_nth_neq:
  "distinct (map fst ts) \<Longrightarrow> i < length ts \<Longrightarrow> k < length ts \<Longrightarrow> k \<noteq> i
   \<Longrightarrow> fst (ts ! k) \<noteq> fst (ts ! i)"
  by (metis length_map nth_eq_iff_index_eq nth_map)

lemma tick_status:
  assumes inv: "inv_status s" and r: "jobs s jid = Some r"
  shows "\<exists>r'. jobs (tick i s) jid = Some r'
           \<and> (status r' = status r \<or> (status r = ''running'' \<and> status r' = ''completed''))"
proof (cases i s rule: tick_cases)
  case idle
  with r show ?thesis by simp
next
  case (dead j x rest)
  with r show ?thesis by simp
next
  case (run j x rest js)
  show ?thesis
  proof (cases "jid = j")
    case False
    with run r have "jobs (tick i s) jid = Some r" by (simp add: run_op_other)
    then show ?thesis by simp
  next
    case True
    from inv run(1,2) have sl: "status_last (x # rest)" and
      "\<exists>r0. jobs s j = Some r0 \<and> status r0 = ''running''"
      unfolding inv_status_def by (metis snd_conv, metis fst_conv snd_conv list.distinct(1))
    with r True have run_st: "status r = ''running''" by auto
    from run_op_self[OF run(3)] r True
    have js: "js j = Some (case x of SetPercent p \<Rightarrow> r\<lparr>percent := p\<rparr> | SetMessage m \<Rightarrow> r\<lparr>message := m\<rparr>
                | DoWork b \<Rightarrow> r | SetStatus st \<Rightarrow> r\<lparr>status := st\<rparr>)" by simp
    show ?thesis
    proof (cases x)
      case (SetStatus st)
      with sl have "st = ''completed''" by simp
      with js SetStatus run(4) True run_st show ?thesis by simp
    qed (use js run(4) True in simp_all)
  qed
qed

lemma tick_dom: "dom (jobs (tick i s)) = dom (jobs s)"
  by (cases i s rule: tick_cases) (simp_all add: run_op_dom)

lemma tick_inv_status:
  assumes inv: "inv_status s"
  shows "inv_status (tick i s)"
proof (cases i s rule: tick_cases)
  case idle
  with inv show ?thesis by simp
next
  case (dead j x rest)
  have m: "map fst ((threads s)[i := (j, [])]) = map fst (threads s)"
    using dead(1,2) by (simp add: map_update) (metis fst_conv list_update_id nth_map length_map)
  have "\<forall>k<length (threads s). status_last (snd ((threads s)[i := (j, [])] ! k))
          \<and> (snd ((threads s)[i := (j, [])] ! k) \<noteq> [] \<longrightarrow>
               (\<exists>r. jobs s (fst ((threads s)[i := (j, [])] ! k)) = Some r \<and> status r = ''running''))"
    using inv dead(1) unfolding inv_status_def by (simp add: nth_list_update)
  moreover have "fst ` set ((threads s)[i := (j, [])]) = fst ` set (threads s)"
    using m by (metis set_map)
  ultimately show ?thesis
    using inv m unfolding inv_status_def dead(3) by simp
next
  case (run j x rest js)
  have m: "map fst ((threads s)[i := (j, rest)]) = map fst (threads s)"
    using run(1,2) by (simp add: map_update) (metis fst_conv list_update_id nth_map length_map)
  have d: "distinct (map fst (threads s))" using inv by (simp add: inv_status_def)
  from inv run(1,2) have sl: "status_last (x # rest)" and
    "\<exists>r0. jobs s j = Some r0 \<and> status r0 = ''running''"
    unfolding inv_status_def by (metis snd_conv, metis fst_conv snd_conv list.distinct(1))
  then obtain r0 where r0: "jobs s j = Some r0" "status r0 = ''running''" by blast
  have js: "js j = Some (case x of SetPercent p \<Rightarrow> r0\<lparr>percent := p\<rparr> | SetMessage m \<Rightarrow> r0\<lparr>message := m\<rparr>
                | DoWork b \<Rightarrow> r0 | SetStatus st \<Rightarrow> r0\<lparr>status := st\<rparr>)"
    by (rule run_op_self[OF run(3) r0(1)])
  have a: "fst ` set ((threads s)[i := (j, rest)]) \<subseteq> dom js"
    using inv m run_op_dom[OF run(3)] unfolding inv_status_def by (metis set_map)
  have b: "\<forall>k<length (threads s). status_last (snd ((threads s)[i := (j, rest)] ! k))
          \<and> (snd ((threads s)[i := (j, rest)] ! k) \<noteq> [] \<longrightarrow>
               (\<exists>r. js (fst ((threads s)[i := (j, rest)] ! k)) = Some r \<and> status r = ''running''))"
  proof (intro allI impI)
    fix k assume k: "k < length (threads s)"
    show "status_last (snd ((threads s)[i := (j, rest)] ! k))
          \<and> (snd ((threads s)[i := (j, rest)] ! k) \<noteq> [] \<longrightarrow>
               (\<exists>r. js (fst ((threads s)[i := (j, rest)] ! k)) = Some r \<and> status r = ''running''))"
    proof (cases "k = i")
      case True
      have "rest \<noteq> [] \<Longrightarrow> \<exists>r. js j = Some r \<and> status r = ''running''"
        using js sl r0(2) by (cases x) auto
      with True k sl show ?thesis by (auto simp: status_last_tail)
    next
      case False
      with d run(1,2) k have "fst (threads s ! k) \<noteq> j"
        using fst_nth_neq[of "threads s" i k] by simp
      then have "js (fst (threads s ! k)) = jobs s (fst (threads s ! k))"
        using run_op_other[OF run(3)] by simp
      with inv k False show ?thesis unfolding inv_status_def by simp
    qed
  qed
  have c: "\<forall>jid r. js jid = Some r \<longrightarrow> status r = ''running'' \<or> status r = ''completed''"
  proof (intro allI impI)
    fix jid r assume h: "js jid = Some r"
    show "status r = ''running'' \<or> status r = ''completed''"
    proof (cases "jid = j")
      case True
      with h js r0(2) sl show ?thesis by (cases x) auto
    next
      case False
      with h run_op_other[OF run(3)] inv show ?thesis unfolding inv_status_def by metis
    qed
  qed
  show ?thesis
    unfolding inv_status_def run(4) using d m a b c by simp
qed

subsection \<open>The job registry: creating a job\<close>

lemma status_last_do_generation: "status_last (do_generation steps)"
  by (induction steps) (simp_all add: do_generation_def step_ops_def)

lemma percents_from_program:
  "sorted (lo # map step_percent steps) \<Longrightarrow> list_all (\<lambda>st. step_percent st \<le> 100) steps
   \<Longrightarrow> percents_from lo (do_generation steps)"
  by (induction steps arbitrary: lo) (auto simp: do_generation_def step_ops_def)

lemma percents_from_do_generation:
  assumes "steps_ok steps"
  shows "percents_from 0 (do_generation steps)"
proof -
  from assms have "sorted (0 # map step_percent steps)"
    by (auto simp: steps_ok_def list_all_iff)
  moreover from assms have "list_all (\<lambda>st. step_percent st \<le> 100) steps"
    by (auto simp: steps_ok_def list_all_iff)
  ultimately show ?thesis by (rule percents_from_program)
qed

lemma generate_status:
  assumes fr: "take 8 uuid \<notin> dom (jobs s)" and r: "jobs s jid = Some r"
  shows "jobs (snd (generate steps uuid s)) jid = Some r"
  using assms by (auto simp: generate_def Let_def)

lemma generate_inv_status:
  assumes inv: "inv_status s" and fr: "take 8 uuid \<notin> dom (jobs s)"
  shows "inv_status (snd (generate steps uuid s))"
proof -
  let ?j = "take 8 uuid"
  let ?js = "(jobs s)(?j \<mapsto> \<lparr>status = ''running'', percent = 0, message = ''Starting...''\<rparr>)"
  let ?ts = "threads s @ [(?j, do_generation steps)]"
  have g: "snd (generate steps uuid s) = s\<lparr>jobs := ?js, threads := ?ts\<rparr>"
    by (simp add: generate_def Let_def)
  have nin: "?j \<notin> fst ` set (threads s)" using inv fr unfolding inv_status_def by blast
  have a: "distinct (map fst ?ts)" using inv nin by (simp add: inv_status_def)
  have b: "fst ` set ?ts \<subseteq> dom ?js" using inv by (auto simp: inv_status_def)
  have c: "\<forall>i<length ?ts. status_last (snd (?ts ! i))
          \<and> (snd (?ts ! i) \<noteq> [] \<longrightarrow> (\<exists>r. ?js (fst (?ts ! i)) = Some r \<and> status r = ''running''))"
  proof (intro allI impI)
    fix i assume i: "i < length ?ts"
    show "status_last (snd (?ts ! i))
          \<and> (snd (?ts ! i) \<noteq> [] \<longrightarrow> (\<exists>r. ?js (fst (?ts ! i)) = Some r \<and> status r = ''running''))"
    proof (cases "i < length (threads s)")
      case True
      then have "fst (threads s ! i) \<noteq> ?j" using nin by (metis image_eqI nth_mem)
      with True inv show ?thesis unfolding inv_status_def by (simp add: nth_append)
    next
      case False
      with i have "i = length (threads s)" by simp
      then show ?thesis by (simp add: status_last_do_generation)
    qed
  qed
  have d: "\<forall>jid r. ?js jid = Some r \<longrightarrow> status r = ''running'' \<or> status r = ''completed''"
    using inv unfolding inv_status_def by auto
  show ?thesis unfolding g inv_status_def using a b c d by simp
qed

lemma generate_inv_percent:
  assumes ok: "steps_ok steps" and inv: "inv_status s" and ip: "inv_percent s"
    and fr: "take 8 uuid \<notin> dom (jobs s)"
  shows "inv_percent (snd (generate steps uuid s))"
proof -
  let ?j = "take 8 uuid"
  let ?js = "(jobs s)(?j \<mapsto> \<lparr>status = ''running'', percent = 0, message = ''Starting...''\<rparr>)"
  let ?ts = "threads s @ [(?j, do_generation steps)]"
  have g: "snd (generate steps uuid s) = s\<lparr>jobs := ?js, threads := ?ts\<rparr>"
    by (simp add: generate_def Let_def)
  have nin: "?j \<notin> fst ` set (threads s)" using inv fr unfolding inv_status_def by blast
  have c: "\<forall>i<length ?ts. \<forall>r. ?js (fst (?ts ! i)) = Some r \<longrightarrow>
             percents_from (percent r) (snd (?ts ! i))"
  proof (intro allI impI)
    fix i r assume i: "i < length ?ts" and r: "?js (fst (?ts ! i)) = Some r"
    show "percents_from (percent r) (snd (?ts ! i))"
    proof (cases "i < length (threads s)")
      case True
      then have "fst (threads s ! i) \<noteq> ?j" using nin by (metis image_eqI nth_mem)
      with True ip r show ?thesis unfolding inv_percent_def by (simp add: nth_append)
    next
      case False
      with i have "i = length (threads s)" by simp
      with r show ?thesis using percents_from_do_generation[OF ok] by auto
    qed
  qed
  have d: "\<forall>jid r. ?js jid = Some r \<longrightarrow> 0 \<le> percent r \<and> percent r \<le> 100"
    using ip unfolding inv_percent_def by auto
  show ?thesis unfolding g inv_percent_def using c d by simp
qed

lemma tick_percent:
  assumes inv: "inv_status s" and ip: "inv_percent s" and r: "jobs s jid = Some r"
  shows "\<exists>r'. jobs (tick i s) jid = Some r' \<and> percent r \<le> percent r'"
proof (cases i s rule: tick_cases)
  case idle
  with r show ?thesis by simp
next
  case (dead j x rest)
  with r show ?thesis by simp
next
  case (run j x rest js)
  show ?thesis
  proof (cases "jid = j")
    case False
    with run r have "jobs (tick i s) jid = Some r" by (simp add: run_op_other)
    then show ?thesis by simp
  next
    case True
    from ip run(1,2) r True have pf: "percents_from (percent r) (x # rest)"
      unfolding inv_percent_def by (metis fst_conv snd_conv)
    from run_op_self[OF run(3)] r True
    have js: "js j = Some (case x of SetPercent p \<Rightarrow> r\<lparr>percent := p\<rparr> | SetMessage m \<Rightarrow> r\<lparr>message := m\<rparr>
                | DoWork b \<Rightarrow> r | SetStatus st \<Rightarrow> r\<lparr>status := st\<rparr>)" by simp
    show ?thesis
      using js pf run(4) True by (cases x) simp_all
  qed
qed

lemma tick_inv_percent:
  assumes inv: "inv_status s" and ip: "inv_percent s"
  shows "inv_percent (tick i s)"
proof (cases i s rule: tick_cases)
  case idle
  with ip show ?thesis by simp
next
  case (dead j x rest)
  have "\<forall>k<length (threads s). \<forall>r. jobs s (fst ((threads s)[i := (j, [])] ! k)) = Some r \<longrightarrow>
          percents_from (percent r) (snd ((threads s)[i := (j, [])] ! k))"
    using ip dead(1) unfolding inv_percent_def by (simp add: nth_list_update)
  then show ?thesis using ip unfolding inv_percent_def dead(3) by simp
next
  case (run j x rest js)
  have d: "distinct (map fst (threads s))" using inv by (simp add: inv_status_def)
  from inv run(1,2) have "\<exists>r0. jobs s j = Some r0 \<and> status r0 = ''running''"
    unfolding inv_status_def by (metis fst_conv snd_conv list.distinct(1))
  then obtain r0 where r0: "jobs s j = Some r0" by blast
  from ip run(1,2) r0 have pf: "percents_from (percent r0) (x # rest)"
    unfolding inv_percent_def by (metis fst_conv snd_conv)
  from ip r0 have rng: "0 \<le> percent r0 \<and> percent r0 \<le> 100"
    unfolding inv_percent_def by blast
  have js: "js j = Some (case x of SetPercent p \<Rightarrow> r0\<lparr>percent := p\<rparr> | SetMessage m \<Rightarrow> r0\<lparr>message := m\<rparr>
                | DoWork b \<Rightarrow> r0 | SetStatus st \<Rightarrow> r0\<lparr>status := st\<rparr>)"
    by (rule run_op_self[OF run(3) r0])
  have b: "\<forall>k<length (threads s). \<forall>r. js (fst ((threads s)[i := (j, rest)] ! k)) = Some r \<longrightarrow>
          percents_from (percent r) (snd ((threads s)[i := (j, rest)] ! k))"
  proof (intro allI impI)
    fix k r assume k: "k < length (threads s)"
      and h: "js (fst ((threads s)[i := (j, rest)] ! k)) = Some r"
    show "percents_from (percent r) (snd ((threads s)[i := (j, rest)] ! k))"
    proof (cases "k = i")
      case True
      with k h have "js j = Some r" by simp
      with js pf have "percents_from (percent r) rest" by (cases x) auto
      with True k show ?thesis by simp
    next
      case False
      with d run(1,2) k have ne: "fst (threads s ! k) \<noteq> j"
        using fst_nth_neq[of "threads s" i k] by simp
      then have "js (fst (threads s ! k)) = jobs s (fst (threads s ! k))"
        using run_op_other[OF run(3)] by simp
      with ip k False h show ?thesis unfolding inv_percent_def by simp
    qed
  qed
  have c: "\<forall>jid r. js jid = Some r \<longrightarrow> 0 \<le> percent r \<and> percent r \<le> 100"
  proof (intro allI impI)
    fix jid r assume h: "js jid = Some r"
    show "0 \<le> percent r \<and> percent r \<le> 100"
    proof (cases "jid = j")
      case True
      with h js rng pf show ?thesis by (cases x) auto
    next
      case False
      with h run_op_other[OF run(3)] ip show ?thesis unfolding inv_percent_def by metis
    qed
  qed
  show ?thesis unfolding inv_percent_def run(4) using b c by simp
qed

subsection \<open>The job registry: runs\<close>

lemma fresh_event_simps:
  "fresh_event (Generate uuid) s = (take 8 uuid \<notin> dom (jobs s))"
  "fresh_event (Tick i) s"
  by (simp_all add: fresh_event_def)

lemma step_dom: "dom (jobs (step_server steps e s)) = dom (jobs s) \<union> set (gen_ids [e])"
  by (cases e) (auto simp: generate_def Let_def tick_dom)

lemma step_inv_status:
  "inv_status s \<Longrightarrow> fresh_event e s \<Longrightarrow> inv_status (step_server steps e s)"
  by (cases e)
    (simp_all add: fresh_event_simps generate_inv_status tick_inv_status)

lemma step_inv_percent:
  "steps_ok steps \<Longrightarrow> inv_status s \<Longrightarrow> inv_percent s \<Longrightarrow> fresh_event e s
   \<Longrightarrow> inv_percent (step_server steps e s)"
  by (cases e)
    (simp_all add: fresh_event_simps generate_inv_percent tick_inv_percent)

lemma step_status:
  assumes "inv_status s" "fresh_event e s" "jobs s jid = Some r"
  shows "\<exists>r'. jobs (step_server steps e s) jid = Some r'
           \<and> (status r' = status r \<or> (status r = ''running'' \<and> status r' = ''completed''))"
proof (cases e)
  case (Generate uuid)
  with assms show ?thesis by (simp add: fresh_event_simps generate_status)
next
  case (Tick i)
  with assms show ?thesis by (simp add: tick_status)
qed

lemma step_percent_mono:
  assumes "inv_status s" "inv_percent s" "fresh_event e s" "jobs s jid = Some r"
  shows "\<exists>r'. jobs (step_server steps e s) jid = Some r' \<and> percent r \<le> percent r'"
proof (cases e)
  case (Generate uuid)
  with assms show ?thesis by (simp add: fresh_event_simps generate_status)
next
  case (Tick i)
  with assms show ?thesis by (simp add: tick_percent)
qed

lemma fresh_run_Cons:
  assumes "fresh_run (e # es) s"
  shows "fresh_event e s \<and> fresh_run es (step_server steps e s)"
proof -
  have g: "gen_ids (e # es) = gen_ids [e] @ gen_ids es" by (cases e) simp_all
  from assms have d: "distinct (gen_ids [e] @ gen_ids es)"
    and i: "set (gen_ids [e] @ gen_ids es) \<inter> dom (jobs s) = {}"
    unfolding fresh_run_def g by blast+
  from i have "fresh_event e s" unfolding fresh_event_def by auto
  moreover from d i have "set (gen_ids es) \<inter> (dom (jobs s) \<union> set (gen_ids [e])) = {}"
    by auto
  moreover from d have "distinct (gen_ids es)" by simp
  ultimately show ?thesis unfolding fresh_run_def step_dom by blast
qed

lemma exec_append: "exec steps (es1 @ es2) s = exec steps es2 (exec steps es1 s)"
  by (induction es1 arbitrary: s) simp_all

lemma gen_ids_append: "gen_ids (es1 @ es2) = gen_ids es1 @ gen_ids es2"
  by (induction es1 rule: gen_ids.induct) simp_all

lemma exec_dom: "dom (jobs (exec steps es s)) = dom (jobs s) \<union> set (gen_ids es)"
proof (induction es arbitrary: s)
  case Nil
  show ?case by simp
next
  case (Cons e es)
  have "gen_ids (e # es) = gen_ids [e] @ gen_ids es" by (cases e) simp_all
  with Cons show ?case by (simp add: step_dom Un_assoc)
qed

lemma exec_inv_status:
  "inv_status s \<Longrightarrow> fresh_run es s \<Longrightarrow> inv_status (exec steps es s)"
proof (induction es arbitrary: s)
  case Nil
  then show ?case by simp
next
  case (Cons e es)
  from Cons.prems(2) have "fresh_event e s" "fresh_run es (step_server steps e s)"
    using fresh_run_Cons by blast+
  with Cons.IH Cons.prems(1) show ?case by (simp add: step_inv_status)
qed

lemma exec_inv_percent:
  "steps_ok steps \<Longrightarrow> inv_status s \<Longrightarrow> inv_percent s \<Longrightarrow> fresh_run es s
   \<Longrightarrow> inv_percent (exec steps es s)"
proof (induction es arbitrary: s)
  case Nil
  then show ?case by simp
next
  case (Cons e es)
  from Cons.prems(4) have "fresh_event e s" "fresh_run es (step_server steps e s)"
    using fresh_run_Cons by blast+
  with Cons.IH Cons.prems show ?case by (simp add: step_inv_status step_inv_percent)
qed

lemma exec_status:
  "inv_status s \<Longrightarrow> fresh_run es s \<Longrightarrow> jobs s jid = Some r \<Longrightarrow>
   \<exists>r'. jobs (exec steps es s) jid = Some r'
      \<and> (status r' = status r \<or> (status r = ''running'' \<and> status r' = ''completed''))"
proof (induction es arbitrary: s r)
  case Nil
  then show ?case by simp
next
  case (Cons e es)
  from Cons.prems(2) have f: "fresh_event e s" "fresh_run es (step_server steps e s)"
    using fresh_run_Cons by blast+
  from step_status[OF Cons.prems(1) f(1) Cons.prems(3)]
  obtain r1 where r1: "jobs (step_server steps e s) jid = Some r1"
    "status r1 = status r \<or> (status r = ''running'' \<and> status r1 = ''completed'')" by blast
  from Cons.IH[OF step_inv_status[OF Cons.prems(1) f(1)] f(2) r1(1)]
  obtain r' where "jobs (exec steps es (step_server steps e s)) jid = Some r'"
    "status r' = status r1 \<or> (status r1 = ''running'' \<and> status r' = ''completed'')" by blast
  with r1(2) show ?case by auto
qed

lemma exec_percent:
  "steps_ok steps \<Longrightarrow> inv_status s \<Longrightarrow> inv_percent s \<Longrightarrow> fresh_run es s
   \<Longrightarrow> jobs s jid = Some r \<Longrightarrow>
   \<exists>r'. jobs (exec steps es s) jid = Some r' \<and> percent r \<le> percent r'"
proof (induction es arbitrary: s r)
  case Nil
  then show ?case by simp
next
  case (Cons e es)
  from Cons.prems(4) have f: "fresh_event e s" "fresh_run es (step_server steps e s)"
    using fresh_run_Cons by blast+
  from step_percent_mono[OF Cons.prems(2,3) f(1) Cons.prems(5)]
  obtain r1 where r1: "jobs (step_server steps e s) jid = Some r1" "percent r \<le> percent r1"
    by blast
  from Cons.IH[OF Cons.prems(1) step_inv_status[OF Cons.prems(2) f(1)]
      step_inv_percent[OF Cons.prems(1,2,3) f(1)] f(2) r1(1)]
  obtain r' where "jobs (exec steps es (step_server steps e s)) jid = Some r'"
    "percent r1 \<le> percent r'" by blast
  with r1(2) show ?case by auto
qed

lemma inv_server0: "inv_status server0" "inv_percent server0"
  by (simp_all add: inv_status_def inv_percent_def server0_def)

lemma fresh_run_prefix:
  "distinct (gen_ids (es1 @ es2)) \<Longrightarrow> fresh_run es1 server0"
  by (simp add: fresh_run_def gen_ids_append server0_def)

lemma fresh_run_suffix:
  "distinct (gen_ids (es1 @ es2)) \<Longrightarrow> fresh_run es2 (exec steps es1 server0)"
  by (auto simp: fresh_run_def gen_ids_append exec_dom server0_def)

subsection \<open>The job registry: status, percentage and status queries\<close>

lemma exec_run_half:
  "jobs (exec ex_steps run_half server0) ''3f2b8c1e''
     = Some \<lparr>status = ''running'', percent = 45, message = ''Starting...''\<rparr>"
  by (simp add: run_half_def ex_steps_def ex_uuid_def server0_def generate_def tick_def
      do_generation_def step_ops_def Let_def)

lemma exec_run_done:
  "jobs (exec ex_steps run_done server0) ''3f2b8c1e''
     = Some \<lparr>status = ''completed'', percent = 45, message = ''Building slides...''\<rparr>"
  by (simp add: run_done_def ex_steps_def ex_uuid_def server0_def generate_def tick_def
      do_generation_def step_ops_def Let_def)

lemma run_split: "run_half @ run_rest
   = [Generate ex_uuid, Tick 0, Tick 0, Tick 1, Tick 0, Tick 0]"
  by (simp add: run_half_def run_rest_def)

lemma exec_run_all:
  "jobs (exec ex_steps (run_half @ run_rest) server0) ''3f2b8c1e''
     = Some \<lparr>status = ''completed'', percent = 45, message = ''Building slides...''\<rparr>"
  unfolding run_split
  by (simp add: ex_steps_def ex_uuid_def server0_def generate_def tick_def
      do_generation_def step_ops_def Let_def)

lemma exec_run_new:
  "jobs (exec ex_steps run_new server0) ''3f2b8c1e''
     = Some \<lparr>status = ''running'', percent = 0, message = ''Starting...''\<rparr>"
  by (simp add: run_new_def ex_uuid_def server0_def generate_def Let_def)

lemma exec_run_work:
  "jobs (exec ex_steps (run_new @ run_work) server0) ''3f2b8c1e''
     = Some \<lparr>status = ''completed'', percent = 45, message = ''Building slides...''\<rparr>"
  by (simp add: run_new_def run_work_def ex_steps_def ex_uuid_def server0_def generate_def
      tick_def do_generation_def step_ops_def Let_def)

text \<open>
  Two UUIDs that differ but share their first eight characters: the second
  \<^verbatim>\<open>generate()\<close> overwrites the record of the first job, and a read under that id
  goes from \<^verbatim>\<open>completed\<close> back to \<^verbatim>\<open>running\<close>.
\<close>

theorem status_regress_counterexample:
  "ex_uuid \<noteq> ex_uuid2
   \<and> jobs (exec ex_steps run_done server0) ''3f2b8c1e''
     = Some \<lparr>status = ''completed'', percent = 45, message = ''Building slides...''\<rparr>
   \<and> jobs (exec ex_steps (run_done @ [Generate ex_uuid2]) server0) ''3f2b8c1e''
     = Some \<lparr>status = ''running'', percent = 0, message = ''Starting...''\<rparr>
   \<and> \<not> forward ''completed'' ''running''"
proof -
  have a: "ex_uuid \<noteq> ex_uuid2" by (simp add: ex_uuid_def ex_uuid2_def)
  have b: "jobs (exec ex_steps (run_done @ [Generate ex_uuid2]) server0) ''3f2b8c1e''
     = Some \<lparr>status = ''running'', percent = 0, message = ''Starting...''\<rparr>"
    by (simp add: exec_append generate_def ex_uuid2_def Let_def)
  have c: "\<not> forward ''completed'' ''running''" by (simp add: forward_def)
  from a b c exec_run_done show ?thesis by blast
qed

text \<open>
  Claim C1, as amended. In every run of the server in which the job ids handed out are
  pairwise distinct, a job that a read finds in the registry is found by every later
  read, and its status has only moved forward: the status is \<^verbatim>\<open>running\<close> or
  \<^verbatim>\<open>completed\<close> at every read (never \<^verbatim>\<open>queued\<close> or \<^verbatim>\<open>failed\<close>), and after
  \<^verbatim>\<open>completed\<close> it stays so.
\<close>

theorem status_only_forward:
  assumes ids: "distinct (gen_ids (es1 @ es2))"
    and r: "jobs (exec steps es1 server0) jid = Some r"
  shows "\<exists>r'. jobs (exec steps (es1 @ es2) server0) jid = Some r'
           \<and> forward (status r) (status r')
           \<and> (status r = ''running'' \<or> status r = ''completed'')
           \<and> (status r' = ''running'' \<or> status r' = ''completed'')"
proof -
  note f = fresh_run_prefix[OF ids] fresh_run_suffix[OF ids, of steps]
  have i1: "inv_status (exec steps es1 server0)"
    by (rule exec_inv_status[OF inv_server0(1) f(1)])
  from exec_status[OF i1 f(2) r] obtain r' where
    r': "jobs (exec steps es2 (exec steps es1 server0)) jid = Some r'"
    "status r' = status r \<or> (status r = ''running'' \<and> status r' = ''completed'')" by blast
  from i1 r have a: "status r = ''running'' \<or> status r = ''completed''"
    unfolding inv_status_def by blast
  from r'(2) have "forward (status r) (status r')" by (auto simp: forward_def)
  with r' a show ?thesis by (auto simp: exec_append)
qed

text \<open>
  One job, read while running and after its thread has finished.
\<close>

theorem status_only_forward_witness:
  "distinct (gen_ids (run_half @ run_rest))
   \<and> jobs (exec ex_steps run_half server0) ''3f2b8c1e''
       = Some \<lparr>status = ''running'', percent = 45, message = ''Starting...''\<rparr>
   \<and> jobs (exec ex_steps (run_half @ run_rest) server0) ''3f2b8c1e''
       = Some \<lparr>status = ''completed'', percent = 45, message = ''Building slides...''\<rparr>
   \<and> (\<exists>r'. jobs (exec ex_steps (run_half @ run_rest) server0) ''3f2b8c1e'' = Some r'
         \<and> forward ''running'' (status r')
         \<and> (status r' = ''running'' \<or> status r' = ''completed''))"
proof -
  have d: "distinct (gen_ids (run_half @ run_rest))"
    by (simp add: run_split)
  from status_only_forward[OF d exec_run_half]
  have "\<exists>r'. jobs (exec ex_steps (run_half @ run_rest) server0) ''3f2b8c1e'' = Some r'
         \<and> forward ''running'' (status r')
         \<and> (status r' = ''running'' \<or> status r' = ''completed'')"
    by simp
  with d exec_run_half exec_run_all show ?thesis by blast
qed

text \<open>
  With the same two UUIDs: the second \<^verbatim>\<open>generate()\<close> puts the percentage read under
  that id back from 45 to 0, while the status read is \<^verbatim>\<open>running\<close> both times.
\<close>

theorem percent_reset_counterexample:
  "steps_ok ex_steps
   \<and> jobs (exec ex_steps run_half server0) ''3f2b8c1e''
     = Some \<lparr>status = ''running'', percent = 45, message = ''Starting...''\<rparr>
   \<and> jobs (exec ex_steps (run_half @ [Generate ex_uuid2]) server0) ''3f2b8c1e''
     = Some \<lparr>status = ''running'', percent = 0, message = ''Starting...''\<rparr>
   \<and> \<not> (45::int) \<le> 0"
proof -
  have a: "steps_ok ex_steps" by (simp add: steps_ok_def ex_steps_def)
  have b: "jobs (exec ex_steps (run_half @ [Generate ex_uuid2]) server0) ''3f2b8c1e''
     = Some \<lparr>status = ''running'', percent = 0, message = ''Starting...''\<rparr>"
    by (simp add: exec_append generate_def ex_uuid2_def Let_def)
  from a b exec_run_half show ?thesis by simp
qed

text \<open>
  Claim C4, as amended. For a step table whose percentages lie between 0 and 100 in
  ascending order, and in every run in which the job ids handed out are pairwise
  distinct: the percentage of a job is an integer between 0 and 100, and a later read
  never shows less than an earlier one (while the job is running, and after).
\<close>

theorem percent_monotone:
  assumes ok: "steps_ok steps" and ids: "distinct (gen_ids (es1 @ es2))"
    and r: "jobs (exec steps es1 server0) jid = Some r"
  shows "\<exists>r'. jobs (exec steps (es1 @ es2) server0) jid = Some r'
           \<and> 0 \<le> percent r \<and> percent r \<le> percent r' \<and> percent r' \<le> 100"
proof -
  note f = fresh_run_prefix[OF ids] fresh_run_suffix[OF ids, of steps]
  have i1: "inv_status (exec steps es1 server0)"
    by (rule exec_inv_status[OF inv_server0(1) f(1)])
  have p1: "inv_percent (exec steps es1 server0)"
    by (rule exec_inv_percent[OF ok inv_server0 f(1)])
  from exec_percent[OF ok i1 p1 f(2) r] obtain r' where
    r': "jobs (exec steps es2 (exec steps es1 server0)) jid = Some r'" "percent r \<le> percent r'"
    by blast
  have "inv_percent (exec steps es2 (exec steps es1 server0))"
    by (rule exec_inv_percent[OF ok i1 p1 f(2)])
  with r'(1) have "percent r' \<le> 100" unfolding inv_percent_def by blast
  moreover from p1 r have "0 \<le> percent r" unfolding inv_percent_def by blast
  ultimately show ?thesis using r' by (auto simp: exec_append)
qed

text \<open>
  One job, read right after its creation and after its thread has finished.
\<close>

theorem percent_monotone_witness:
  "steps_ok ex_steps \<and> distinct (gen_ids (run_new @ run_work))
   \<and> jobs (exec ex_steps run_new server0) ''3f2b8c1e''
       = Some \<lparr>status = ''running'', percent = 0, message = ''Starting...''\<rparr>
   \<and> jobs (exec ex_steps (run_new @ run_work) server0) ''3f2b8c1e''
       = Some \<lparr>status = ''completed'', percent = 45, message = ''Building slides...''\<rparr>
   \<and> (\<exists>r'. jobs (exec ex_steps (run_new @ run_work) server0) ''3f2b8c1e'' = Some r'
         \<and> 0 \<le> percent r' \<and> percent r' \<le> 100)"
proof -
  have a: "steps_ok ex_steps" by (simp add: steps_ok_def ex_steps_def)
  have d: "distinct (gen_ids (run_new @ run_work))"
    by (simp add: run_new_def run_work_def)
  from percent_monotone[OF a d exec_run_new]
  have "\<exists>r'. jobs (exec ex_steps (run_new @ run_work) server0) ''3f2b8c1e'' = Some r'
         \<and> 0 \<le> percent r' \<and> percent r' \<le> 100"
    by simp
  with a d exec_run_new exec_run_work show ?thesis by blast
qed

text \<open>
  Claim C5. In every run of the server, a status query for an id that no
  \<^verbatim>\<open>generate()\<close> has handed out yields not-found, never a record; a query for an id
  handed out yields the record stored under it at that moment; and a query leaves the
  server as it was.
\<close>

theorem unknown_id_not_found:
  "(jid \<notin> set (gen_ids es) \<longrightarrow>
      get_status jid (exec steps es server0) = (NotFound, exec steps es server0))
   \<and> (jid \<in> set (gen_ids es) \<longrightarrow>
      (\<exists>r. jobs (exec steps es server0) jid = Some r
         \<and> get_status jid (exec steps es server0) = (Found r, exec steps es server0)))
   \<and> snd (get_status jid s) = s"
proof -
  have d: "dom (jobs (exec steps es server0)) = set (gen_ids es)"
    by (simp add: exec_dom server0_def)
  have a: "jid \<notin> set (gen_ids es) \<longrightarrow>
      get_status jid (exec steps es server0) = (NotFound, exec steps es server0)"
    using d by (auto simp: get_status_def split: option.splits)
  have b: "jid \<in> set (gen_ids es) \<longrightarrow>
      (\<exists>r. jobs (exec steps es server0) jid = Some r
         \<and> get_status jid (exec steps es server0) = (Found r, exec steps es server0))"
    using d by (auto simp: get_status_def split: option.splits)
  have c: "snd (get_status jid s) = s"
    by (simp add: get_status_def split: option.splits)
  from a b c show ?thesis by blast
qed

text \<open>
  An unknown id and a known one, after two jobs were created.
\<close>

theorem unknown_id_not_found_witness:
  "''deadbeef'' \<notin> set (gen_ids run_two)
   \<and> fst (get_status ''deadbeef'' (exec ex_steps run_two server0)) = NotFound
   \<and> ''3f2b8c1e'' \<in> set (gen_ids run_two)
   \<and> fst (get_status ''3f2b8c1e'' (exec ex_steps run_two server0))
       = Found \<lparr>status = ''running'', percent = 45, message = ''Starting...''\<rparr>
   \<and> snd (get_status ''3f2b8c1e'' (exec ex_steps run_two server0)) = exec ex_steps run_two server0"
proof -
  have a: "''deadbeef'' \<notin> set (gen_ids run_two)" "''3f2b8c1e'' \<in> set (gen_ids run_two)"
    by (simp_all add: run_two_def ex_uuid_def)
  have j: "jobs (exec ex_steps run_two server0) ''3f2b8c1e''
     = Some \<lparr>status = ''running'', percent = 45, message = ''Starting...''\<rparr>"
    by (simp add: run_two_def ex_steps_def ex_uuid_def server0_def generate_def tick_def
        do_generation_def step_ops_def Let_def)
  show ?thesis
    using unknown_id_not_found[of "''deadbeef''" run_two ex_steps "exec ex_steps run_two server0"]
      unknown_id_not_found[of "''3f2b8c1e''" run_two ex_steps "exec ex_steps run_two server0"] a j
    by auto
qed

end
